theory Spec2Isabelle
  imports Complex_Main "HOL-Library.Multiset"
begin

section \<open>Data model\<close>

text \<open>
  An ObjectId is an opaque identity (\<open>.equals\<close> is equality); a Date is its number of
  milliseconds since the epoch. A failed response is the HTTP status and the message; the
  400 answer to a ValidationError also carries the list of field messages.
  The \<open>createdAt\<close>/\<open>updatedAt\<close> stamps that the library maintains are read by no
  operation below and are left out of the records.
\<close>

type_synonym oid = nat
type_synonym date = int

datatype failure = Fail nat string | FailErrors nat string "string list"

text \<open>What a library call throws into a controller's catch block: a ValidationError with
  its messages, or any other error (CastError, TypeError, a server error).\<close>

datatype thrown = ValidationError "string list" | OtherError

record task_note =
  note_text :: string
  note_createdBy :: oid
  note_createdAt :: date

record task =
  task_id :: oid
  title :: string
  description :: string
  dueDate :: date
  status :: string
  priority :: string
  createdBy :: oid
  assignedTo :: oid
  completedAt :: "date option"
  tags :: "string list"
  task_notes :: "task_note list"

text \<open>A stored user holds \<open>Some\<close> password hash; a document read with the password
  deselected holds \<open>None\<close>. \<open>isActive\<close> is a Boolean path and may hold null
  (\<open>None\<close>).\<close>

record user =
  user_id :: oid
  username :: string
  email :: string
  password :: "string option"
  role :: string
  firstName :: "string option"
  lastName :: "string option"
  isActive :: "bool option"

text \<open>The two collections, in the store's natural (insertion) order.\<close>

record store =
  users :: "user list"
  tasks :: "task list"

text \<open>The body of \<open>PUT /api/tasks/:id\<close>: every field may be absent (\<open>undefined\<close>).
  The same seven fields, when present, make up \<open>updateData\<close>.\<close>

record task_body =
  b_title :: "string option"
  b_description :: "string option"
  b_dueDate :: "date option"
  b_priority :: "string option"
  b_status :: "string option"
  b_assignedTo :: "string option"
  b_tags :: "string list option"

text \<open>A value of a parsed request body (JSON or url-encoded) that is not
  \<open>undefined\<close>: a boolean, a string, a number or null.\<close>

datatype body_value = BBool bool | BString string | BNumber int | BNull

text \<open>The body of \<open>PUT /api/users/:id\<close> and of \<open>POST /api/users\<close>. The controller
  compares \<open>isActive\<close> with \<open>=== false\<close> before the library casts it, so that
  field is kept as the value the request carries.\<close>

record user_body =
  ub_username :: "string option"
  ub_email :: "string option"
  ub_firstName :: "string option"
  ub_lastName :: "string option"
  ub_role :: "string option"
  ub_isActive :: "body_value option"

record new_user_body =
  nu_username :: "string option"
  nu_email :: "string option"
  nu_password :: "string option"
  nu_firstName :: "string option"
  nu_lastName :: "string option"
  nu_role :: "string option"

text \<open>A populated reference: \<open>_id\<close> and the selected fields
  \<open>username firstName lastName\<close>; \<open>None\<close> (null) when no user has the id.\<close>

record user_ref =
  ref_id :: oid
  ref_username :: string
  ref_firstName :: "string option"
  ref_lastName :: "string option"

record task_doc =
  doc :: task
  createdBy_ref :: "user_ref option"
  assignedTo_ref :: "user_ref option"
  notes_createdBy_ref :: "user_ref option list"

section \<open>The environment: database library and runtime\<close>

text \<open>
  What the controllers call but the repository does not define is a parameter:
  the ObjectId functions (\<open>isValid\<close>, the cast of a string id in a query or update, the
  call \<open>mongoose.Types.ObjectId(id)\<close> without \<open>new\<close>, \<open>toString\<close>), the schema
  validation the library runs on \<open>save\<close> and on an update with \<open>runValidators\<close> (the
  list of messages, empty when the document passes), the schema setters (\<open>trim\<close>,
  \<open>lowercase\<close>), the regular expression engine (\<open>None\<close>: the pattern is rejected),
  the cast of a string condition of a query, the cast of a body value to a Boolean path
  (\<open>None\<close>: a CastError; \<open>Some None\<close>: null), the store's sort (of tasks by a
  field, descending or not; of users by \<open>createdAt\<close> descending), the fresh id of a
  new document, the password hash, and the time zone of the process: \<open>LocalTZA t isUTC\<close>
  is the offset of local time from UTC in milliseconds, at the UTC instant \<open>t\<close> when
  \<open>isUTC\<close> holds and for the local time value \<open>t\<close> otherwise, as the language
  standard names it. The offset changes with daylight saving.
\<close>

record env =
  ObjectId_isValid :: "string \<Rightarrow> bool"
  castObjectId :: "string \<Rightarrow> oid option"
  ObjectId_call :: "string \<Rightarrow> oid option"
  oid_toString :: "oid \<Rightarrow> string"
  validateTaskOnSave :: "date \<Rightarrow> task \<Rightarrow> string list"
  validateTaskUpdate :: "date \<Rightarrow> task_body \<Rightarrow> string list"
  applySetters :: "string \<Rightarrow> string \<Rightarrow> string"
  castCondition :: "string \<Rightarrow> string \<Rightarrow> string"
  regexCompile :: "string \<Rightarrow> (string \<Rightarrow> bool) option"
  sortTasks :: "string \<Rightarrow> bool \<Rightarrow> task list \<Rightarrow> task list"
  sortUsers :: "user list \<Rightarrow> user list"
  validateUserOnSave :: "user \<Rightarrow> string list"
  validateUserUpdate :: "user_body \<Rightarrow> string list"
  bcrypt_hash :: "string \<Rightarrow> string"
  newObjectId :: "store \<Rightarrow> oid"
  castBoolean :: "body_value \<Rightarrow> bool option option"
  LocalTZA :: "date \<Rightarrow> bool \<Rightarrow> int"

section \<open>Store primitives\<close>

fun replaceFirst :: "('a \<Rightarrow> bool) \<Rightarrow> 'a \<Rightarrow> 'a list \<Rightarrow> 'a list" where
  "replaceFirst P y [] = []"
| "replaceFirst P y (x # xs) = (if P x then y # xs else x # replaceFirst P y xs)"

fun deleteFirst :: "('a \<Rightarrow> bool) \<Rightarrow> 'a list \<Rightarrow> 'a list" where
  "deleteFirst P [] = []"
| "deleteFirst P (x # xs) = (if P x then xs else x # deleteFirst P xs)"

definition Task_findById :: "oid \<Rightarrow> store \<Rightarrow> task option" where
  "Task_findById i s = find (\<lambda>t. task_id t = i) (tasks s)"

definition User_findById :: "oid \<Rightarrow> store \<Rightarrow> user option" where
  "User_findById i s = find (\<lambda>u. user_id u = i) (users s)"

definition populateUser :: "store \<Rightarrow> oid \<Rightarrow> user_ref option" where
  "populateUser s i =
     map_option (\<lambda>u. \<lparr>ref_id = user_id u, ref_username = username u,
                       ref_firstName = firstName u, ref_lastName = lastName u\<rparr>)
       (User_findById i s)"

text \<open>\<open>populate\<close> of \<open>createdBy\<close> and \<open>assignedTo\<close>; the notes' authors are populated
  by \<open>getTaskById\<close> only.\<close>

definition populate :: "store \<Rightarrow> task \<Rightarrow> task_doc" where
  "populate s t = \<lparr>doc = t, createdBy_ref = populateUser s (createdBy t),
     assignedTo_ref = populateUser s (assignedTo t), notes_createdBy_ref = []\<rparr>"

definition populateWithNotes :: "store \<Rightarrow> task \<Rightarrow> task_doc" where
  "populateWithNotes s t = (populate s t)
     \<lparr>notes_createdBy_ref := map (\<lambda>n. populateUser s (note_createdBy n)) (task_notes t)\<rparr>"

text \<open>JavaScript truthiness of an optional string: \<open>undefined\<close> and \<open>""\<close> are falsy.\<close>

definition truthy :: "string option \<Rightarrow> bool" where
  "truthy v = (case v of None \<Rightarrow> False | Some x \<Rightarrow> x \<noteq> [])"

section \<open>Task lifecycle\<close>

text \<open>\<open>taskSchema.pre('save')\<close>. The flag is \<open>this.isModified('status')\<close>;
  \<open>!this.completedAt\<close> holds exactly for null, every Date being truthy.\<close>

definition taskSchema_pre_save :: "date \<Rightarrow> bool \<Rightarrow> task \<Rightarrow> task" where
  "taskSchema_pre_save now statusModified t =
     (if statusModified then
        (if status t = ''completed'' \<and> completedAt t = None then t\<lparr>completedAt := Some now\<rparr>
         else if status t \<noteq> ''completed'' then t\<lparr>completedAt := None\<rparr>
         else t)
      else t)"

text \<open>\<open>task.save()\<close> of a document loaded as \<open>loaded\<close> and then assigned to:
  validation, the pre-save hook, the write of the document under its id. A path is
  modified when its value differs from the loaded one.\<close>

definition Task_save :: "env \<Rightarrow> date \<Rightarrow> task \<Rightarrow> task \<Rightarrow> store \<Rightarrow> (thrown + task) \<times> store" where
  "Task_save E now loaded t s =
     (case validateTaskOnSave E now t of
        e # es \<Rightarrow> (Inl (ValidationError (e # es)), s)
      | [] \<Rightarrow>
          (let t' = taskSchema_pre_save now (status t \<noteq> status loaded) t
           in (Inr t', s\<lparr>tasks := replaceFirst (\<lambda>d. task_id d = task_id t') t' (tasks s)\<rparr>)))"

definition validStatuses :: "string list" where
  "validStatuses = [''pending'', ''in-progress'', ''completed'', ''cancelled'']"

text \<open>\<open>updateTaskStatus\<close> (PATCH /api/tasks/:id/status). Its catch block answers every
  thrown error, a validation error included, with 500.\<close>

definition updateTaskStatus ::
  "env \<Rightarrow> date \<Rightarrow> user \<Rightarrow> string \<Rightarrow> string \<Rightarrow> store \<Rightarrow> (failure + task_doc) \<times> store" where
  "updateTaskStatus E now actor ident new_status s =
     (if \<not> ObjectId_isValid E ident then (Inl (Fail 400 ''Invalid task ID''), s)
      else if new_status \<notin> set validStatuses then
        (Inl (Fail 400 (''Invalid status. Must be one of: '' @
                        ''pending, in-progress, completed, cancelled'')), s)
      else
        (case castObjectId E ident of
           None \<Rightarrow> (Inl (Fail 500 ''Server error updating task status''), s)
         | Some i \<Rightarrow>
            (case Task_findById i s of
               None \<Rightarrow> (Inl (Fail 404 ''Task not found''), s)
             | Some task \<Rightarrow>
                 if role actor \<noteq> ''admin'' \<and> assignedTo task \<noteq> user_id actor
                    \<and> createdBy task \<noteq> user_id actor
                 then (Inl (Fail 403 ''Access denied''), s)
                 else
                   (case Task_save E now task (task\<lparr>status := new_status\<rparr>) s of
                      (Inl errs, s') \<Rightarrow> (Inl (Fail 500 ''Server error updating task status''), s')
                    | (Inr t', s') \<Rightarrow> (Inr (populate s' t'), s')))))"

section \<open>Task controllers\<close>

text \<open>\<open>getTaskById\<close> (GET /api/tasks/:id). The permission test reads
  \<open>task.assignedTo._id\<close> and \<open>task.createdBy._id\<close> of the populated document, left
  to right with short-circuit \<open>&&\<close>: a null reference throws a TypeError, which the
  catch block answers with 500.\<close>

definition getTaskById :: "env \<Rightarrow> user \<Rightarrow> string \<Rightarrow> store \<Rightarrow> failure + task_doc" where
  "getTaskById E actor ident s =
     (if \<not> ObjectId_isValid E ident then Inl (Fail 400 ''Invalid task ID'')
      else
        (case castObjectId E ident of
           None \<Rightarrow> Inl (Fail 500 ''Server error fetching task'')
         | Some i \<Rightarrow>
            (case Task_findById i s of
               None \<Rightarrow> Inl (Fail 404 ''Task not found'')
             | Some t \<Rightarrow>
                 (let task = populateWithNotes s t in
                  if role actor \<noteq> ''admin'' then
                    (case assignedTo_ref task of
                       None \<Rightarrow> Inl (Fail 500 ''Server error fetching task'')
                     | Some a \<Rightarrow>
                         if ref_id a \<noteq> user_id actor then
                           (case createdBy_ref task of
                              None \<Rightarrow> Inl (Fail 500 ''Server error fetching task'')
                            | Some c \<Rightarrow>
                                if ref_id c \<noteq> user_id actor then Inl (Fail 403 ''Access denied'')
                                else Inr task)
                         else Inr task)
                  else Inr task))))"

text \<open>\<open>Task.findByIdAndUpdate(id, updateData, {new: true, runValidators: true})\<close>:
  the update is cast (a string that is no ObjectId throws), the validators of the paths
  that are set run, and the fields are written. It is an update, not a \<open>save\<close>: the
  pre-save hook of the schema does not run. The result is the updated document, or null
  when no document has the id.\<close>

definition applyUpdate :: "env \<Rightarrow> task_body \<Rightarrow> oid option \<Rightarrow> task \<Rightarrow> task" where
  "applyUpdate E b a t =
     t\<lparr>title := (case b_title b of None \<Rightarrow> title t | Some v \<Rightarrow> applySetters E ''title'' v),
       description := (case b_description b of None \<Rightarrow> description t
                       | Some v \<Rightarrow> applySetters E ''description'' v),
       dueDate := (case b_dueDate b of None \<Rightarrow> dueDate t | Some v \<Rightarrow> v),
       priority := (case b_priority b of None \<Rightarrow> priority t | Some v \<Rightarrow> v),
       status := (case b_status b of None \<Rightarrow> status t | Some v \<Rightarrow> v),
       assignedTo := (case a of None \<Rightarrow> assignedTo t | Some v \<Rightarrow> v),
       tags := (case b_tags b of None \<Rightarrow> tags t | Some vs \<Rightarrow> map (applySetters E ''tags'') vs)\<rparr>"

definition Task_findByIdAndUpdate ::
  "env \<Rightarrow> date \<Rightarrow> oid \<Rightarrow> task_body \<Rightarrow> store \<Rightarrow> (thrown + task option) \<times> store" where
  "Task_findByIdAndUpdate E now i b s =
     (case (case b_assignedTo b of None \<Rightarrow> Some None
            | Some v \<Rightarrow> map_option Some (castObjectId E v)) of
        None \<Rightarrow> (Inl OtherError, s)
      | Some a \<Rightarrow>
          (case validateTaskUpdate E now b of
             e # es \<Rightarrow> (Inl (ValidationError (e # es)), s)
           | [] \<Rightarrow>
              (case Task_findById i s of
                 None \<Rightarrow> (Inr None, s)
               | Some t \<Rightarrow>
                   (let t' = applyUpdate E b a t
                    in (Inr (Some t'),
                        s\<lparr>tasks := replaceFirst (\<lambda>d. task_id d = i) t' (tasks s)\<rparr>)))))"

text \<open>\<open>updateTask\<close> (PUT /api/tasks/:id).\<close>

definition updateTask ::
  "env \<Rightarrow> date \<Rightarrow> user \<Rightarrow> string \<Rightarrow> task_body \<Rightarrow> store \<Rightarrow> (failure + task_doc option) \<times> store" where
  "updateTask E now actor ident b s =
     (if \<not> ObjectId_isValid E ident then (Inl (Fail 400 ''Invalid task ID''), s)
      else
        (case castObjectId E ident of
           None \<Rightarrow> (Inl (Fail 500 ''Server error updating task''), s)
         | Some i \<Rightarrow>
            (case Task_findById i s of
               None \<Rightarrow> (Inl (Fail 404 ''Task not found''), s)
             | Some task \<Rightarrow>
                 if role actor \<noteq> ''admin'' \<and> assignedTo task \<noteq> user_id actor
                    \<and> createdBy task \<noteq> user_id actor
                 then (Inl (Fail 403 ''Access denied''), s)
                 else if truthy (b_assignedTo b)
                         \<and> b_assignedTo b \<noteq> Some (oid_toString E (assignedTo task))
                         \<and> Option.bind (b_assignedTo b) (castObjectId E) = None
                 then (Inl (Fail 500 ''Server error updating task''), s)
                 else if truthy (b_assignedTo b)
                         \<and> b_assignedTo b \<noteq> Some (oid_toString E (assignedTo task))
                         \<and> Option.bind (Option.bind (b_assignedTo b) (castObjectId E))
                              (\<lambda>a. User_findById a s) = None
                 then (Inl (Fail 400 ''Assigned user not found''), s)
                 else
                   (case Task_findByIdAndUpdate E now i b s of
                      (Inl (ValidationError errors), s') \<Rightarrow>
                        (Inl (FailErrors 400 ''Validation error'' errors), s')
                    | (Inl OtherError, s') \<Rightarrow> (Inl (Fail 500 ''Server error updating task''), s')
                    | (Inr updatedTask, s') \<Rightarrow> (Inr (map_option (populate s') updatedTask), s')))))"

text \<open>\<open>deleteTask\<close> (DELETE /api/tasks/:id).\<close>

definition deleteTask :: "env \<Rightarrow> user \<Rightarrow> string \<Rightarrow> store \<Rightarrow> (failure + unit) \<times> store" where
  "deleteTask E actor ident s =
     (if \<not> ObjectId_isValid E ident then (Inl (Fail 400 ''Invalid task ID''), s)
      else
        (case castObjectId E ident of
           None \<Rightarrow> (Inl (Fail 500 ''Server error deleting task''), s)
         | Some i \<Rightarrow>
            (case Task_findById i s of
               None \<Rightarrow> (Inl (Fail 404 ''Task not found''), s)
             | Some task \<Rightarrow>
                 if role actor \<noteq> ''admin'' \<and> createdBy task \<noteq> user_id actor
                 then (Inl (Fail 403 ''Only task creator or admin can delete tasks''), s)
                 else (Inr (), s\<lparr>tasks := deleteFirst (\<lambda>d. task_id d = i) (tasks s)\<rparr>))))"

section \<open>Listing tasks\<close>

text \<open>\<open>req.query\<close> of GET /api/tasks. \<open>q_page\<close> and \<open>q_limit\<close> are \<open>None\<close> when the
  parameter is absent (the defaults 1 and 10 apply) and otherwise hold the integer that
  \<open>parseInt\<close> reads from it; a parameter that does not parse to an integer is outside
  this model.\<close>

record task_list_query =
  q_page :: "int option"
  q_limit :: "int option"
  q_status :: "string option"
  q_priority :: "string option"
  q_assignedTo :: "string option"
  q_search :: "string option"
  q_sortBy :: "string option"
  q_sortOrder :: "string option"

text \<open>The filter object \<open>query\<close>: \<open>assignedTo\<close> is either the actor's ObjectId or the
  string of the request, which the library casts when the query runs; \<open>f_search\<close> stands
  for the \<open>$or\<close> of the two case-insensitive regular expressions on \<open>title\<close> and
  \<open>description\<close>.\<close>

datatype id_cond = IdObject oid | IdString string

record task_filter =
  f_assignedTo :: "id_cond option"
  f_status :: "string option"
  f_priority :: "string option"
  f_search :: "string option"

definition buildTaskFilter :: "user \<Rightarrow> task_list_query \<Rightarrow> task_filter" where
  "buildTaskFilter actor q =
     \<lparr>f_assignedTo =
        (if role actor \<noteq> ''admin'' then Some (IdObject (user_id actor))
         else if truthy (q_assignedTo q) then map_option IdString (q_assignedTo q)
         else None),
      f_status = (if truthy (q_status q) then q_status q else None),
      f_priority = (if truthy (q_priority q) then q_priority q else None),
      f_search = (if truthy (q_search q) then q_search q else None)\<rparr>"

text \<open>The predicate a filter denotes; \<open>None\<close> when the query is rejected (a string
  that casts to no ObjectId, a pattern the engine refuses).\<close>

definition taskMatcher :: "env \<Rightarrow> task_filter \<Rightarrow> (task \<Rightarrow> bool) option" where
  "taskMatcher E f =
     (case (case f_assignedTo f of
              None \<Rightarrow> Some None
            | Some (IdObject i) \<Rightarrow> Some (Some i)
            | Some (IdString v) \<Rightarrow> map_option Some (castObjectId E v)) of
        None \<Rightarrow> None
      | Some a \<Rightarrow>
         (case (case f_search f of
                  None \<Rightarrow> Some None
                | Some pat \<Rightarrow> map_option Some (regexCompile E pat)) of
            None \<Rightarrow> None
          | Some re \<Rightarrow>
              Some (\<lambda>t. (case a of None \<Rightarrow> True | Some i \<Rightarrow> assignedTo t = i)
                      \<and> (case f_status f of None \<Rightarrow> True
                          | Some v \<Rightarrow> status t = castCondition E ''status'' v)
                      \<and> (case f_priority f of None \<Rightarrow> True
                          | Some v \<Rightarrow> priority t = castCondition E ''priority'' v)
                      \<and> (case re of None \<Rightarrow> True
                          | Some m \<Rightarrow> m (title t) \<or> m (description t)))))"

text \<open>\<open>Task.find(query).sort(sort).skip(skip).limit(limit)\<close>: the store refuses a
  negative skip, reads a limit of 0 as no limit and a negative limit as its absolute
  value.\<close>

definition Task_find ::
  "env \<Rightarrow> task_filter \<Rightarrow> string \<Rightarrow> bool \<Rightarrow> int \<Rightarrow> int \<Rightarrow> store \<Rightarrow> thrown + task list" where
  "Task_find E f sortBy desc skip limit s =
     (case taskMatcher E f of
        None \<Rightarrow> Inl OtherError
      | Some m \<Rightarrow>
          if skip < 0 then Inl OtherError
          else
            (let rest = drop (nat skip) (sortTasks E sortBy desc (filter m (tasks s)))
             in Inr (if limit = 0 then rest else take (nat \<bar>limit\<bar>) rest)))"

definition Task_countDocuments :: "env \<Rightarrow> task_filter \<Rightarrow> store \<Rightarrow> thrown + int" where
  "Task_countDocuments E f s =
     (case taskMatcher E f of
        None \<Rightarrow> Inl OtherError
      | Some m \<Rightarrow> Inr (int (length (filter m (tasks s)))))"

text \<open>The pagination object of the response. \<open>Math.ceil(total / limit)\<close> is a number of
  pages for a limit other than 0; for the limit 0 the quotient is \<open>Infinity\<close> or
  \<open>NaN\<close>, which the JSON response renders as null (\<open>None\<close>), and
  \<open>page < Infinity\<close> is true while \<open>page < NaN\<close> is false. Counts of documents are
  far below \<open>2^53\<close>, where the quotient of the doubles and its ceiling are exact.\<close>

record pagination =
  currentPage :: int
  totalPages :: "int option"
  totalTasks :: int
  hasNext :: bool
  hasPrev :: bool

record task_page =
  page_tasks :: "task_doc list"
  page_pagination :: pagination

definition paginate :: "int \<Rightarrow> int \<Rightarrow> int \<Rightarrow> pagination" where
  "paginate page limit totalCount =
     \<lparr>currentPage = page,
      totalPages = (if limit = 0 then None
                    else Some \<lceil>real_of_int totalCount / real_of_int limit\<rceil>),
      totalTasks = totalCount,
      hasNext = (if limit = 0 then 0 < totalCount
                 else page < \<lceil>real_of_int totalCount / real_of_int limit\<rceil>),
      hasPrev = (page > 1)\<rparr>"

text \<open>\<open>getTasks\<close> (GET /api/tasks).\<close>

definition getTasks :: "env \<Rightarrow> user \<Rightarrow> task_list_query \<Rightarrow> store \<Rightarrow> failure + task_page" where
  "getTasks E actor q s =
     (let page = (case q_page q of None \<Rightarrow> 1 | Some n \<Rightarrow> n);
          limit = (case q_limit q of None \<Rightarrow> 10 | Some n \<Rightarrow> n);
          sortBy = (case q_sortBy q of None \<Rightarrow> ''dueDate'' | Some f \<Rightarrow> f);
          sortOrder = (case q_sortOrder q of None \<Rightarrow> ''asc'' | Some v \<Rightarrow> v);
          query = buildTaskFilter actor q;
          skip = (page - 1) * limit
      in (case Task_find E query sortBy (sortOrder = ''desc'') skip limit s of
            Inl err \<Rightarrow> Inl (Fail 500 ''Server error fetching tasks'')
          | Inr found \<Rightarrow>
              (case Task_countDocuments E query s of
                 Inl err \<Rightarrow> Inl (Fail 500 ''Server error fetching tasks'')
               | Inr totalCount \<Rightarrow>
                   Inr \<lparr>page_tasks = map (populate s) found,
                        page_pagination = paginate page limit totalCount\<rparr>)))"

section \<open>Derived fields\<close>

text \<open>The virtuals of the task schema, evaluated when a document is serialised
  (\<open>toJSON: {virtuals: true}\<close>) at the time \<open>now\<close> of the read.
  \<open>setHours(0, 0, 0, 0)\<close> follows the language standard: the instant is taken to local
  time, its time within the day is set to zero, and the local time value is taken back to
  UTC with the offset that holds for it.\<close>

definition isOverdue :: "date \<Rightarrow> task \<Rightarrow> bool" where
  "isOverdue now t = (if status t = ''completed'' then False else now > dueDate t)"

definition setHours0 :: "env \<Rightarrow> date \<Rightarrow> date" where
  "setHours0 E d =
     (let t = d + LocalTZA E d True;
          date = (t div 86400000) * 86400000
      in date - LocalTZA E date False)"

definition daysUntilDue :: "env \<Rightarrow> date \<Rightarrow> task \<Rightarrow> int" where
  "daysUntilDue E now t =
     (let today = setHours0 E now;
          due = setHours0 E (dueDate t);
          diffTime = due - today
      in \<lceil>real_of_int diffTime / (1000 * 60 * 60 * 24)\<rceil>)"

definition priorityColor :: "task \<Rightarrow> string" where
  "priorityColor t =
     (case map_of [(''low'', ''#10B981''), (''medium'', ''#F59E0B''),
                   (''high'', ''#F97316''), (''urgent'', ''#EF4444'')] (priority t) of
        Some c \<Rightarrow> c
      | None \<Rightarrow> ''#6B7280'')"

record task_json =
  json_task :: task_doc
  json_isOverdue :: bool
  json_daysUntilDue :: int
  json_priorityColor :: string

definition toJSON :: "env \<Rightarrow> date \<Rightarrow> task_doc \<Rightarrow> task_json" where
  "toJSON E now d =
     \<lparr>json_task = d, json_isOverdue = isOverdue now (doc d),
      json_daysUntilDue = daysUntilDue E now (doc d),
      json_priorityColor = priorityColor (doc d)\<rparr>"

section \<open>User management\<close>

text \<open>\<open>adminAuth\<close>, the middleware in front of every route of
  \<open>/api/users\<close> but \<open>for-assignment\<close>: \<open>None\<close> is \<open>next()\<close>.\<close>

definition adminAuth :: "user option \<Rightarrow> failure option" where
  "adminAuth u =
     (case u of
        None \<Rightarrow> Some (Fail 401 ''Authentication required'')
      | Some a \<Rightarrow> if role a \<noteq> ''admin'' then Some (Fail 403 ''Admin access required'') else None)"

text \<open>\<open>userSchema.methods.getFullName\<close>.\<close>

definition getFullName :: "user \<Rightarrow> string" where
  "getFullName u =
     (if truthy (firstName u) \<and> truthy (lastName u)
      then the (firstName u) @ '' '' @ the (lastName u)
      else username u)"

text \<open>\<open>select('-password')\<close>.\<close>

definition withoutPassword :: "user \<Rightarrow> user" where
  "withoutPassword u = u\<lparr>password := None\<rparr>"

subsection \<open>getAllUsers\<close>

record user_list_query =
  uq_page :: "int option"
  uq_limit :: "int option"
  uq_search :: "string option"
  uq_role :: "string option"
  uq_isActive :: "string option"

record user_filter =
  uf_role :: "string option"
  uf_isActive :: "bool option"
  uf_search :: "string option"

record users_pagination =
  u_currentPage :: int
  u_totalPages :: "int option"
  totalUsers :: int
  u_hasNext :: bool
  u_hasPrev :: bool

record user_page =
  page_users :: "user list"
  page_users_pagination :: users_pagination

definition buildUserFilter :: "user_list_query \<Rightarrow> user_filter" where
  "buildUserFilter q =
     \<lparr>uf_role = (if truthy (uq_role q) then uq_role q else None),
      uf_isActive = map_option (\<lambda>v. v = ''true'') (uq_isActive q),
      uf_search = (if truthy (uq_search q) then uq_search q else None)\<rparr>"

definition userMatcher :: "env \<Rightarrow> user_filter \<Rightarrow> (user \<Rightarrow> bool) option" where
  "userMatcher E f =
     (case (case uf_search f of
              None \<Rightarrow> Some None
            | Some pat \<Rightarrow> map_option Some (regexCompile E pat)) of
        None \<Rightarrow> None
      | Some re \<Rightarrow>
          Some (\<lambda>u. (case uf_role f of None \<Rightarrow> True
                      | Some v \<Rightarrow> role u = castCondition E ''role'' v)
                  \<and> (case uf_isActive f of None \<Rightarrow> True | Some v \<Rightarrow> isActive u = Some v)
                  \<and> (case re of None \<Rightarrow> True
                      | Some m \<Rightarrow> m (username u) \<or> m (email u)
                          \<or> (case firstName u of None \<Rightarrow> False | Some v \<Rightarrow> m v)
                          \<or> (case lastName u of None \<Rightarrow> False | Some v \<Rightarrow> m v))))"

definition getAllUsers :: "env \<Rightarrow> user \<Rightarrow> user_list_query \<Rightarrow> store \<Rightarrow> failure + user_page" where
  "getAllUsers E actor q s =
     (let page = (case uq_page q of None \<Rightarrow> 1 | Some n \<Rightarrow> n);
          limit = (case uq_limit q of None \<Rightarrow> 10 | Some n \<Rightarrow> n);
          skip = (page - 1) * limit
      in (case userMatcher E (buildUserFilter q) of
            None \<Rightarrow> Inl (Fail 500 ''Server error fetching users'')
          | Some m \<Rightarrow>
              if skip < 0 then Inl (Fail 500 ''Server error fetching users'')
              else
                (let rest = drop (nat skip) (sortUsers E (filter m (users s)));
                     found = (if limit = 0 then rest else take (nat \<bar>limit\<bar>) rest);
                     p = paginate page limit (int (length (filter m (users s))))
                 in Inr \<lparr>page_users = map withoutPassword found,
                         page_users_pagination =
                           \<lparr>u_currentPage = currentPage p, u_totalPages = totalPages p,
                            totalUsers = totalTasks p, u_hasNext = hasNext p,
                            u_hasPrev = hasPrev p\<rparr>\<rparr>)))"

subsection \<open>getUserById\<close>

text \<open>The aggregation \<open>$match {assignedTo}\<close>, \<open>$group {_id: '$status', count}\<close>: one
  group for each status that occurs among the matched tasks.\<close>

definition Task_aggregate_byStatus :: "oid \<Rightarrow> store \<Rightarrow> (string \<times> int) list" where
  "Task_aggregate_byStatus u s =
     (let matched = filter (\<lambda>t. assignedTo t = u) (tasks s)
      in map (\<lambda>k. (k, int (length (filter (\<lambda>t. status t = k) matched))))
           (remdups (map status matched)))"

text \<open>The \<open>stats\<close> object and the \<open>forEach\<close> over the groups.\<close>

definition stats_init :: "string \<rightharpoonup> int" where
  "stats_init = [''total'' \<mapsto> 0, ''pending'' \<mapsto> 0, ''in-progress'' \<mapsto> 0,
                 ''completed'' \<mapsto> 0, ''cancelled'' \<mapsto> 0]"

definition stats_step :: "(string \<rightharpoonup> int) \<Rightarrow> string \<times> int \<Rightarrow> (string \<rightharpoonup> int)" where
  "stats_step stats stat =
     (let stats1 = stats(fst stat \<mapsto> snd stat)
      in stats1(''total'' \<mapsto> (case stats1 ''total'' of Some n \<Rightarrow> n + snd stat
                                  | None \<Rightarrow> snd stat)))"

record user_with_stats =
  the_user :: user
  taskStats :: "string \<rightharpoonup> int"

definition getUserById :: "env \<Rightarrow> user \<Rightarrow> string \<Rightarrow> store \<Rightarrow> failure + user_with_stats" where
  "getUserById E actor ident s =
     (if \<not> ObjectId_isValid E ident then Inl (Fail 400 ''Invalid user ID'')
      else
        (case castObjectId E ident of
           None \<Rightarrow> Inl (Fail 500 ''Server error fetching user'')
         | Some i \<Rightarrow>
            (case User_findById i s of
               None \<Rightarrow> Inl (Fail 404 ''User not found'')
             | Some u \<Rightarrow>
                (case ObjectId_call E ident of
                   None \<Rightarrow> Inl (Fail 500 ''Server error fetching user'')
                 | Some a \<Rightarrow>
                     Inr \<lparr>the_user = withoutPassword u,
                          taskStats = foldl stats_step stats_init
                                        (Task_aggregate_byStatus a s)\<rparr>))))"

subsection \<open>createUser\<close>

text \<open>\<open>user.save()\<close> of a new document: validation, the pre-save hook that hashes the
  password, the insert; the unique indexes on \<open>username\<close> and \<open>email\<close> refuse a
  duplicate.\<close>

definition User_save_new :: "env \<Rightarrow> user \<Rightarrow> store \<Rightarrow> (thrown + user) \<times> store" where
  "User_save_new E u s =
     (case validateUserOnSave E u of
        e # es \<Rightarrow> (Inl (ValidationError (e # es)), s)
      | [] \<Rightarrow>
          (let u' = u\<lparr>password := map_option (bcrypt_hash E) (password u)\<rparr>
           in if find (\<lambda>d. username d = username u' \<or> email d = email u') (users s) \<noteq> None
              then (Inl OtherError, s)
              else (Inr u', s\<lparr>users := users s @ [u']\<rparr>)))"

definition createUser ::
  "env \<Rightarrow> user \<Rightarrow> new_user_body \<Rightarrow> store \<Rightarrow> (failure + user) \<times> store" where
  "createUser E actor b s =
     (if \<not> truthy (nu_username b) \<or> \<not> truthy (nu_email b) \<or> \<not> truthy (nu_password b)
      then (Inl (Fail 400 ''Username, email, and password are required''), s)
      else if find (\<lambda>d. email d = castCondition E ''email'' (the (nu_email b))
                        \<or> username d = castCondition E ''username'' (the (nu_username b)))
                (users s) \<noteq> None
      then (Inl (Fail 400 ''User with this email or username already exists''), s)
      else
        (let u = \<lparr>user_id = newObjectId E s,
                  username = applySetters E ''username'' (the (nu_username b)),
                  email = applySetters E ''email'' (the (nu_email b)),
                  password = nu_password b,
                  role = (if truthy (nu_role b) then the (nu_role b) else ''user''),
                  firstName = map_option (applySetters E ''firstName'') (nu_firstName b),
                  lastName = map_option (applySetters E ''lastName'') (nu_lastName b),
                  isActive = Some True\<rparr>
         in (case User_save_new E u s of
               (Inl (ValidationError errors), s') \<Rightarrow>
                 (Inl (FailErrors 400 ''Validation error'' errors), s')
             | (Inl OtherError, s') \<Rightarrow> (Inl (Fail 500 ''Server error creating user''), s')
             | (Inr saved, s') \<Rightarrow> (Inr (withoutPassword saved), s'))))"

subsection \<open>updateUser\<close>

text \<open>\<open>User.findByIdAndUpdate(id, updateData, {new: true, runValidators: true})\<close>:
  the update is cast (\<open>isActive\<close> to a Boolean, which may throw), the validators of the
  paths that are set run, the fields are written; a unique index refuses a duplicate.\<close>

definition applyUserUpdate :: "env \<Rightarrow> user_body \<Rightarrow> bool option option \<Rightarrow> user \<Rightarrow> user" where
  "applyUserUpdate E b act u =
     u\<lparr>username := (case ub_username b of None \<Rightarrow> username u
                    | Some v \<Rightarrow> applySetters E ''username'' v),
       email := (case ub_email b of None \<Rightarrow> email u | Some v \<Rightarrow> applySetters E ''email'' v),
       firstName := (case ub_firstName b of None \<Rightarrow> firstName u
                     | Some v \<Rightarrow> Some (applySetters E ''firstName'' v)),
       lastName := (case ub_lastName b of None \<Rightarrow> lastName u
                    | Some v \<Rightarrow> Some (applySetters E ''lastName'' v)),
       role := (case ub_role b of None \<Rightarrow> role u | Some v \<Rightarrow> v),
       isActive := (case act of None \<Rightarrow> isActive u | Some v \<Rightarrow> v)\<rparr>"

definition User_findByIdAndUpdate ::
  "env \<Rightarrow> oid \<Rightarrow> user_body \<Rightarrow> store \<Rightarrow> (thrown + user option) \<times> store" where
  "User_findByIdAndUpdate E i b s =
     (case (case ub_isActive b of None \<Rightarrow> Some None
            | Some v \<Rightarrow> map_option Some (castBoolean E v)) of
        None \<Rightarrow> (Inl OtherError, s)
      | Some act \<Rightarrow>
         (case validateUserUpdate E b of
            e # es \<Rightarrow> (Inl (ValidationError (e # es)), s)
          | [] \<Rightarrow>
             (case User_findById i s of
                None \<Rightarrow> (Inr None, s)
              | Some u \<Rightarrow>
                  (let u' = applyUserUpdate E b act u
                   in if (username u' \<noteq> username u
                          \<and> find (\<lambda>d. user_id d \<noteq> i \<and> username d = username u') (users s)
                              \<noteq> None)
                         \<or> (email u' \<noteq> email u
                             \<and> find (\<lambda>d. user_id d \<noteq> i \<and> email d = email u') (users s)
                                 \<noteq> None)
                      then (Inl OtherError, s)
                      else (Inr (Some u'),
                            s\<lparr>users := replaceFirst (\<lambda>d. user_id d = i) u' (users s)\<rparr>)))))"

text \<open>\<open>updateUser\<close> (PUT /api/users/:id). \<open>isActive === false\<close> holds for the
  boolean false only.\<close>

definition updateUser ::
  "env \<Rightarrow> user \<Rightarrow> string \<Rightarrow> user_body \<Rightarrow> store \<Rightarrow> (failure + user option) \<times> store" where
  "updateUser E actor ident b s =
     (if \<not> ObjectId_isValid E ident then (Inl (Fail 400 ''Invalid user ID''), s)
      else
        (case castObjectId E ident of
           None \<Rightarrow> (Inl (Fail 500 ''Server error updating user''), s)
         | Some i \<Rightarrow>
            (case User_findById i s of
               None \<Rightarrow> (Inl (Fail 404 ''User not found''), s)
             | Some u \<Rightarrow>
                 if user_id u = user_id actor \<and> ub_isActive b = Some (BBool False)
                 then (Inl (Fail 400 ''You cannot deactivate your own account''), s)
                 else if truthy (ub_username b) \<and> ub_username b \<noteq> Some (username u)
                         \<and> find (\<lambda>d. username d = castCondition E ''username'' (the (ub_username b))
                                      \<and> user_id d \<noteq> i) (users s) \<noteq> None
                 then (Inl (Fail 400 ''Username is already taken''), s)
                 else if truthy (ub_email b) \<and> ub_email b \<noteq> Some (email u)
                         \<and> find (\<lambda>d. email d = castCondition E ''email'' (the (ub_email b))
                                      \<and> user_id d \<noteq> i) (users s) \<noteq> None
                 then (Inl (Fail 400 ''Email is already taken''), s)
                 else
                   (case User_findByIdAndUpdate E i b s of
                      (Inl (ValidationError errors), s') \<Rightarrow>
                        (Inl (FailErrors 400 ''Validation error'' errors), s')
                    | (Inl OtherError, s') \<Rightarrow> (Inl (Fail 500 ''Server error updating user''), s')
                    | (Inr updatedUser, s') \<Rightarrow>
                        (Inr (map_option withoutPassword updatedUser), s')))))"

subsection \<open>deleteUser\<close>

text \<open>The decimal digits of a number, as a template literal renders it.\<close>

fun decimal :: "nat \<Rightarrow> string" where
  "decimal n = (if n < 10 then [char_of (48 + n)]
                else decimal (n div 10) @ [char_of (48 + n mod 10)])"

declare decimal.simps [simp del]

text \<open>\<open>Task.countDocuments({$or: [{assignedTo: id}, {createdBy: id}]})\<close>, the id cast
  to \<open>i\<close>.\<close>

definition countUserTasks :: "oid \<Rightarrow> store \<Rightarrow> nat" where
  "countUserTasks i s = length (filter (\<lambda>t. assignedTo t = i \<or> createdBy t = i) (tasks s))"

definition deleteUser :: "env \<Rightarrow> user \<Rightarrow> string \<Rightarrow> store \<Rightarrow> (failure + unit) \<times> store" where
  "deleteUser E actor ident s =
     (if \<not> ObjectId_isValid E ident then (Inl (Fail 400 ''Invalid user ID''), s)
      else
        (case castObjectId E ident of
           None \<Rightarrow> (Inl (Fail 500 ''Server error deleting user''), s)
         | Some i \<Rightarrow>
            (case User_findById i s of
               None \<Rightarrow> (Inl (Fail 404 ''User not found''), s)
             | Some u \<Rightarrow>
                 if user_id u = user_id actor
                 then (Inl (Fail 400 ''You cannot delete your own account''), s)
                 else
                   (let userTasks = countUserTasks i s
                    in if userTasks > 0
                       then (Inl (Fail 400 (''Cannot delete user. They have '' @ decimal userTasks
                               @ '' task(s) associated with them. ''
                               @ ''Please reassign or delete those tasks first.'')), s)
                       else (Inr (), s\<lparr>users := deleteFirst (\<lambda>d. user_id d = i) (users s)\<rparr>)))))"

subsection \<open>The routes of /api/users\<close>

text \<open>Each route runs \<open>auth\<close> (which resolves the actor), then \<open>adminAuth\<close>, then the
  controller.\<close>

definition route_getAllUsers :: "env \<Rightarrow> user \<Rightarrow> user_list_query \<Rightarrow> store \<Rightarrow> failure + user_page" where
  "route_getAllUsers E actor q s =
     (case adminAuth (Some actor) of Some f \<Rightarrow> Inl f | None \<Rightarrow> getAllUsers E actor q s)"

definition route_getUserById :: "env \<Rightarrow> user \<Rightarrow> string \<Rightarrow> store \<Rightarrow> failure + user_with_stats" where
  "route_getUserById E actor ident s =
     (case adminAuth (Some actor) of Some f \<Rightarrow> Inl f | None \<Rightarrow> getUserById E actor ident s)"

definition route_createUser ::
  "env \<Rightarrow> user \<Rightarrow> new_user_body \<Rightarrow> store \<Rightarrow> (failure + user) \<times> store" where
  "route_createUser E actor b s =
     (case adminAuth (Some actor) of Some f \<Rightarrow> (Inl f, s) | None \<Rightarrow> createUser E actor b s)"

definition route_updateUser ::
  "env \<Rightarrow> user \<Rightarrow> string \<Rightarrow> user_body \<Rightarrow> store \<Rightarrow> (failure + user option) \<times> store" where
  "route_updateUser E actor ident b s =
     (case adminAuth (Some actor) of Some f \<Rightarrow> (Inl f, s) | None \<Rightarrow> updateUser E actor ident b s)"

definition route_deleteUser :: "env \<Rightarrow> user \<Rightarrow> string \<Rightarrow> store \<Rightarrow> (failure + unit) \<times> store" where
  "route_deleteUser E actor ident s =
     (case adminAuth (Some actor) of Some f \<Rightarrow> (Inl f, s) | None \<Rightarrow> deleteUser E actor ident s)"

section \<open>A reference environment\<close>

text \<open>
  One environment, used to evaluate the model on concrete requests. An id string is
  valid when it is 24 hexadecimal digits, and is cast to the number it writes;
  \<open>toString\<close> writes 24 lower-case digits. Validation applies the validators of the
  schemas (enumerations, lengths, the due date not before the start of the current day)
  to the paths that are set, and on \<open>save\<close> to the whole document. The setters trim
  blanks, and lower-case the email. A pattern is read as a literal and matches a text
  that contains it, letter case ignored. Tasks are sorted stably by due date when that is
  the sort field and left in natural order otherwise; users are listed in reverse
  insertion order. A Boolean path takes \<open>true\<close>, \<open>'true'\<close>, \<open>1\<close>, \<open>'1'\<close>,
  \<open>'yes'\<close> as true, \<open>false\<close>, \<open>'false'\<close>, \<open>0\<close>, \<open>'0'\<close>, \<open>'no'\<close> as false and
  null as null, and refuses every other value. \<open>ObjectId\<close> is a class, as in version 7
  of the library and later: called without \<open>new\<close> it throws. Local time is UTC.
\<close>

definition hexDigit :: "char \<Rightarrow> nat option" where
  "hexDigit c = map_of (zip ''0123456789abcdefABCDEF''
                   [0, 1, 2, 3, 4, 5, 6, 7, 8, 9, 10, 11, 12, 13, 14, 15, 10, 11, 12, 13, 14, 15]) c"

definition isHexId :: "string \<Rightarrow> bool" where
  "isHexId v = (length v = 24 \<and> list_all (\<lambda>c. hexDigit c \<noteq> None) v)"

definition hexValue :: "string \<Rightarrow> nat" where
  "hexValue v = foldl (\<lambda>n c. 16 * n + (case hexDigit c of Some d \<Rightarrow> d | None \<Rightarrow> 0)) 0 v"

definition parseHexId :: "string \<Rightarrow> oid option" where
  "parseHexId v = (if isHexId v then Some (hexValue v) else None)"

fun hexDigits :: "nat \<Rightarrow> nat \<Rightarrow> string" where
  "hexDigits 0 n = []"
| "hexDigits (Suc k) n = hexDigits k (n div 16) @ [''0123456789abcdef'' ! (n mod 16)]"

definition toHex24 :: "oid \<Rightarrow> string" where
  "toHex24 n = hexDigits 24 n"

definition trim :: "string \<Rightarrow> string" where
  "trim v = rev (dropWhile (\<lambda>c. c = CHR '' '') (rev (dropWhile (\<lambda>c. c = CHR '' '') v)))"

definition lowerChar :: "char \<Rightarrow> char" where
  "lowerChar c = (let n = (of_char c :: nat) in if 65 \<le> n \<and> n \<le> 90 then char_of (n + 32) else c)"

definition containsCI :: "string \<Rightarrow> string \<Rightarrow> bool" where
  "containsCI pat txt =
     list_ex (\<lambda>k. take (length pat) (drop k (map lowerChar txt)) = map lowerChar pat)
       [0..<Suc (length txt)]"

definition validPriorities :: "string list" where
  "validPriorities = [''low'', ''medium'', ''high'', ''urgent'']"

definition ref_validateTaskUpdate :: "date \<Rightarrow> task_body \<Rightarrow> string list" where
  "ref_validateTaskUpdate now b =
     (case b_title b of None \<Rightarrow> []
      | Some v \<Rightarrow> (if trim v = [] then [''Task title is required'']
                   else if length (trim v) > 100 then [''Task title cannot exceed 100 characters'']
                   else [])) @
     (case b_description b of None \<Rightarrow> []
      | Some v \<Rightarrow> (if trim v = [] then [''Task description is required'']
                   else if length (trim v) > 1000
                   then [''Task description cannot exceed 1000 characters''] else [])) @
     (case b_dueDate b of None \<Rightarrow> []
      | Some d \<Rightarrow> (if d \<ge> now - now mod 86400000 then [] else [''Due date cannot be in the past''])) @
     (case b_priority b of None \<Rightarrow> []
      | Some v \<Rightarrow> (if v \<in> set validPriorities then [] else [v @ '' is not a valid priority''])) @
     (case b_status b of None \<Rightarrow> []
      | Some v \<Rightarrow> (if v \<in> set validStatuses then [] else [v @ '' is not a valid status''])) @
     (case b_tags b of None \<Rightarrow> []
      | Some vs \<Rightarrow> concat (map (\<lambda>v. if length (trim v) > 20
                                     then [''Tag cannot exceed 20 characters''] else []) vs))"

definition ref_validateTaskOnSave :: "date \<Rightarrow> task \<Rightarrow> string list" where
  "ref_validateTaskOnSave now t =
     ref_validateTaskUpdate now
       \<lparr>b_title = Some (title t), b_description = Some (description t),
        b_dueDate = Some (dueDate t), b_priority = Some (priority t),
        b_status = Some (status t), b_assignedTo = None, b_tags = Some (tags t)\<rparr>"

definition ref_validateUserUpdate :: "user_body \<Rightarrow> string list" where
  "ref_validateUserUpdate b =
     (case ub_username b of None \<Rightarrow> []
      | Some v \<Rightarrow> (if length (trim v) < 3 then [''Username must be at least 3 characters'']
                   else if length (trim v) > 30 then [''Username cannot exceed 30 characters'']
                   else [])) @
     (case ub_firstName b of None \<Rightarrow> []
      | Some v \<Rightarrow> (if length (trim v) > 50 then [''First name cannot exceed 50 characters'']
                   else [])) @
     (case ub_lastName b of None \<Rightarrow> []
      | Some v \<Rightarrow> (if length (trim v) > 50 then [''Last name cannot exceed 50 characters'']
                   else [])) @
     (case ub_role b of None \<Rightarrow> []
      | Some v \<Rightarrow> (if v \<in> set [''user'', ''admin''] then []
                   else [v @ '' is not a valid enum value'']))"

definition ref_validateUserOnSave :: "user \<Rightarrow> string list" where
  "ref_validateUserOnSave u =
     ref_validateUserUpdate
       \<lparr>ub_username = Some (username u), ub_email = Some (email u),
        ub_firstName = firstName u, ub_lastName = lastName u, ub_role = Some (role u),
        ub_isActive = None\<rparr> @
     (case password u of None \<Rightarrow> [''Password is required'']
      | Some p \<Rightarrow> (if length p < 6 then [''Password must be at least 6 characters''] else []))"

definition ref_castBoolean :: "body_value \<Rightarrow> bool option option" where
  "ref_castBoolean v =
     (if v = BBool True \<or> v = BString ''true'' \<or> v = BNumber 1 \<or> v = BString ''1''
         \<or> v = BString ''yes'' then Some (Some True)
      else if v = BBool False \<or> v = BString ''false'' \<or> v = BNumber 0 \<or> v = BString ''0''
         \<or> v = BString ''no'' then Some (Some False)
      else if v = BNull then Some None
      else None)"

definition ref_env :: env where
  "ref_env =
     \<lparr>ObjectId_isValid = isHexId,
      castObjectId = parseHexId,
      ObjectId_call = (\<lambda>v. None),
      oid_toString = toHex24,
      validateTaskOnSave = ref_validateTaskOnSave,
      validateTaskUpdate = ref_validateTaskUpdate,
      applySetters = (\<lambda>path v. if path = ''email'' then map lowerChar (trim v) else trim v),
      castCondition = (\<lambda>path v. v),
      regexCompile = (\<lambda>pat. Some (containsCI pat)),
      sortTasks = (\<lambda>field desc xs.
         if field = ''dueDate''
         then (if desc then rev (sort_key dueDate (rev xs)) else sort_key dueDate xs)
         else xs),
      sortUsers = rev,
      validateUserOnSave = ref_validateUserOnSave,
      validateUserUpdate = ref_validateUserUpdate,
      bcrypt_hash = (\<lambda>p. ''$2a$12$'' @ p),
      newObjectId = (\<lambda>s. Suc (fold max (map user_id (users s) @ map task_id (tasks s)) 0)),
      castBoolean = ref_castBoolean,
      LocalTZA = (\<lambda>t isUTC. 0)\<rparr>"

text \<open>The same environment with an \<open>ObjectId\<close> that may be called without \<open>new\<close>,
  as in earlier versions of the library.\<close>

definition legacy_env :: env where
  "legacy_env = ref_env\<lparr>ObjectId_call := parseHexId\<rparr>"

text \<open>The same environment in the time zone America/New_York with its rules of 2024:
  daylight saving time (UTC-4) from 2024-03-10 07:00 UTC to 2024-11-03 06:00 UTC, standard
  time (UTC-5) otherwise. A local time value is read with daylight saving time from 03:00
  of March 10 up to 02:00 of November 3.\<close>

definition newYork_TZA :: "date \<Rightarrow> bool \<Rightarrow> int" where
  "newYork_TZA t isUTC =
     (if isUTC then (if 1710054000000 \<le> t \<and> t < 1730613600000 then - 14400000 else - 18000000)
      else (if 1710054000000 - 14400000 \<le> t \<and> t < 1730613600000 - 14400000
            then - 14400000 else - 18000000))"

definition newYork_env :: env where
  "newYork_env = ref_env\<lparr>LocalTZA := newYork_TZA\<rparr>"

text \<open>Sample data: an administrator, two users, and three tasks.\<close>

definition admin0 :: user where
  "admin0 = \<lparr>user_id = 1, username = ''root'', email = ''root@example.com'',
     password = Some ''$2a$12$secret0'', role = ''admin'', firstName = None, lastName = None,
     isActive = Some True\<rparr>"

definition alice :: user where
  "alice = \<lparr>user_id = 2, username = ''alice'', email = ''alice@example.com'',
     password = Some ''$2a$12$secret1'', role = ''user'', firstName = Some ''Alice'',
     lastName = Some ''Liddell'', isActive = Some True\<rparr>"

definition bob :: user where
  "bob = \<lparr>user_id = 3, username = ''bob'', email = ''bob@example.com'',
     password = Some ''$2a$12$secret2'', role = ''user'', firstName = None, lastName = None,
     isActive = Some True\<rparr>"

definition carol :: user where
  "carol = \<lparr>user_id = 4, username = ''carol'', email = ''carol@example.com'',
     password = Some ''$2a$12$secret3'', role = ''user'', firstName = None, lastName = None,
     isActive = Some True\<rparr>"

definition task10 :: task where
  "task10 = \<lparr>task_id = 16, title = ''Ship report'', description = ''Quarterly numbers'',
     dueDate = 172800000, status = ''pending'', priority = ''high'', createdBy = 1,
     assignedTo = 2, completedAt = None, tags = [], task_notes = []\<rparr>"

definition task11 :: task where
  "task11 = \<lparr>task_id = 17, title = ''Review budget'', description = ''Draft for May'',
     dueDate = 86400000, status = ''completed'', priority = ''low'', createdBy = 2,
     assignedTo = 2, completedAt = Some 3600000, tags = [''finance''], task_notes = []\<rparr>"

definition task12 :: task where
  "task12 = \<lparr>task_id = 18, title = ''Order paper'', description = ''A4, two boxes'',
     dueDate = 259200000, status = ''in-progress'', priority = ''medium'', createdBy = 3,
     assignedTo = 2, completedAt = None, tags = [], task_notes = []\<rparr>"

text \<open>Two tasks around the clock changes of 2024 in New York: one due at noon of
  November 4, one due at noon of March 10 (local time).\<close>

definition task_nov4 :: task where
  "task_nov4 = task10\<lparr>dueDate := 1730739600000\<rparr>"

definition task_mar10 :: task where
  "task_mar10 = task10\<lparr>dueDate := 1710086400000\<rparr>"

definition store0 :: store where
  "store0 = \<lparr>users = [admin0, alice, bob, carol], tasks = [task10, task11, task12]\<rparr>"

definition id10 :: string where "id10 = ''000000000000000000000010''"
definition id11 :: string where "id11 = ''000000000000000000000011''"
definition id_alice :: string where "id_alice = ''000000000000000000000002''"
definition id_bob :: string where "id_bob = ''000000000000000000000003''"
definition id_carol :: string where "id_carol = ''000000000000000000000004''"
definition id_admin :: string where "id_admin = ''000000000000000000000001''"

section \<open>Notions used in the statements\<close>

text \<open>The HTTP status of a failed response.\<close>

fun failure_status :: "failure \<Rightarrow> nat" where
  "failure_status (Fail c m) = c"
| "failure_status (FailErrors c m es) = c"

text \<open>The number of the local calendar day an instant falls on.\<close>

definition localDay :: "env \<Rightarrow> date \<Rightarrow> int" where
  "localDay E d = (d + LocalTZA E d True) div 86400000"

text \<open>The store's sort returns a permutation of what it is given.\<close>

definition sortPermutes :: "env \<Rightarrow> bool" where
  "sortPermutes E = (\<forall>field desc xs. mset (sortTasks E field desc xs) = mset xs)"

text \<open>The stored records on page \<open>p\<close> of a listing with the given limit.\<close>

definition pageRecords ::
  "env \<Rightarrow> user \<Rightarrow> task_list_query \<Rightarrow> store \<Rightarrow> int \<Rightarrow> int \<Rightarrow> task list" where
  "pageRecords E actor q s limit p =
     (case getTasks E actor (q\<lparr>q_page := Some p, q_limit := Some limit\<rparr>) s of
        Inr r \<Rightarrow> map doc (page_tasks r)
      | Inl f \<Rightarrow> [])"

text \<open>A listing request with no parameter.\<close>

definition query0 :: task_list_query where
  "query0 = \<lparr>q_page = None, q_limit = None, q_status = None, q_priority = None,
     q_assignedTo = None, q_search = None, q_sortBy = None, q_sortOrder = None\<rparr>"

section \<open>Auxiliary facts\<close>

lemma find_Some_P: "find P xs = Some x \<Longrightarrow> P x"
  by (induction xs) (auto split: if_splits)

lemma find_replaceFirst: "P y \<Longrightarrow> find P xs = Some x \<Longrightarrow> find P (replaceFirst P y xs) = Some y"
  by (induction xs) (auto split: if_splits)

lemma replaceFirst_same: "find P xs = Some x \<Longrightarrow> replaceFirst P x xs = xs"
  by (induction xs) (auto split: if_splits)

lemma pre_save_id: "task_id (taskSchema_pre_save now m t) = task_id t"
  by (simp add: taskSchema_pre_save_def)

lemma Task_findById_id: "Task_findById i s = Some t \<Longrightarrow> task_id t = i"
  unfolding Task_findById_def by (drule find_Some_P) simp

lemma Task_save_Inr:
  assumes "Task_save E now loaded t s = (Inr t', s')"
  shows "t' = taskSchema_pre_save now (status t \<noteq> status loaded) t
       \<and> s' = s\<lparr>tasks := replaceFirst (\<lambda>d. task_id d = task_id t) t' (tasks s)\<rparr>"
  using assms by (auto simp: Task_save_def Let_def pre_save_id split: list.splits)

lemma updateTaskStatus_Inr:
  assumes "updateTaskStatus E now actor ident st s = (Inr d, s')"
  shows "\<exists>i old. castObjectId E ident = Some i \<and> Task_findById i s = Some old
           \<and> doc d = taskSchema_pre_save now (st \<noteq> status old) (old\<lparr>status := st\<rparr>)
           \<and> Task_findById i s' = Some (doc d)
           \<and> s' = s\<lparr>tasks := replaceFirst (\<lambda>t. task_id t = i) (doc d) (tasks s)\<rparr>"
proof -
  from assms obtain i where i: "castObjectId E ident = Some i"
    by (auto simp: updateTaskStatus_def split: if_splits option.splits)
  from assms i obtain old where old: "Task_findById i s = Some old"
    by (auto simp: updateTaskStatus_def split: if_splits option.splits)
  from assms i old obtain t' where
    sv: "Task_save E now old (old\<lparr>status := st\<rparr>) s = (Inr t', s')" and d: "d = populate s' t'"
    by (auto simp: updateTaskStatus_def split: if_splits sum.splits prod.splits)
  have id: "task_id old = i" using old by (rule Task_findById_id)
  from Task_save_Inr[OF sv] have
    t': "t' = taskSchema_pre_save now (st \<noteq> status old) (old\<lparr>status := st\<rparr>)" and
    s': "s' = s\<lparr>tasks := replaceFirst (\<lambda>d. task_id d = i) t' (tasks s)\<rparr>"
    using id by simp_all
  have dd: "doc d = t'" using d by (simp add: populate_def)
  have "task_id t' = i" using t' id by (simp add: pre_save_id)
  then have "find (\<lambda>d. task_id d = i) (replaceFirst (\<lambda>d. task_id d = i) t' (tasks s)) = Some t'"
    using old unfolding Task_findById_def by (intro find_replaceFirst) auto
  then have "Task_findById i s' = Some t'" using s' by (simp add: Task_findById_def)
  with i old t' s' dd show ?thesis by auto
qed



lemma pre_save_status: "status (taskSchema_pre_save now m t) = status t"
  by (simp add: taskSchema_pre_save_def)

lemma updateTaskStatus_twice:
  assumes r1: "updateTaskStatus E now actor ident st s = (Inr d, s1)"
      and r2: "updateTaskStatus E now2 actor ident st s1 = (Inr d2, s2)"
  shows "doc d2 = doc d \<and> s2 = s1"
proof -
  from updateTaskStatus_Inr[OF r1] obtain i old where
    i: "castObjectId E ident = Some i" and
    d: "doc d = taskSchema_pre_save now (st \<noteq> status old) (old\<lparr>status := st\<rparr>)" and
    f1: "Task_findById i s1 = Some (doc d)"
    by blast
  from updateTaskStatus_Inr[OF r2] i f1 have
    d2: "doc d2 = taskSchema_pre_save now2 (st \<noteq> status (doc d)) ((doc d)\<lparr>status := st\<rparr>)" and
    s2: "s2 = s1\<lparr>tasks := replaceFirst (\<lambda>t. task_id t = i) (doc d2) (tasks s1)\<rparr>"
    by auto
  have st: "status (doc d) = st" using d by (simp add: pre_save_status)
  then have same: "doc d2 = doc d" using d2 by (simp add: taskSchema_pre_save_def)
  have "replaceFirst (\<lambda>t. task_id t = i) (doc d) (tasks s1) = tasks s1"
    using f1 unfolding Task_findById_def by (rule replaceFirst_same)
  with s2 same show ?thesis by simp
qed


lemma User_findById_id: "User_findById i s = Some u \<Longrightarrow> user_id u = i"
  unfolding User_findById_def by (drule find_Some_P) simp

lemma populateUser_ref_id:
  "populateUser s i = Some r \<Longrightarrow> ref_id r = i"
  by (auto simp: populateUser_def dest: User_findById_id)

lemma getTaskById_404:
  "getTaskById E actor ident s = Inl (Fail 404 m) \<Longrightarrow>
     ObjectId_isValid E ident \<and> (\<exists>i. castObjectId E ident = Some i \<and> Task_findById i s = None)"
  by (auto simp: getTaskById_def Let_def split: if_splits option.splits)

lemma updateTask_404:
  "fst (updateTask E now actor ident b s) = Inl (Fail 404 m) \<Longrightarrow>
     ObjectId_isValid E ident \<and> (\<exists>i. castObjectId E ident = Some i \<and> Task_findById i s = None)"
  by (auto simp: updateTask_def split: if_splits option.splits prod.splits sum.splits thrown.splits)

lemma updateTaskStatus_404:
  "fst (updateTaskStatus E now actor ident st s) = Inl (Fail 404 m) \<Longrightarrow>
     ObjectId_isValid E ident \<and> (\<exists>i. castObjectId E ident = Some i \<and> Task_findById i s = None)"
  by (auto simp: updateTaskStatus_def split: if_splits option.splits prod.splits sum.splits)

lemma deleteTask_404:
  "fst (deleteTask E actor ident s) = Inl (Fail 404 m) \<Longrightarrow>
     ObjectId_isValid E ident \<and> (\<exists>i. castObjectId E ident = Some i \<and> Task_findById i s = None)"
  by (auto simp: deleteTask_def split: if_splits option.splits)

section \<open>Completion timestamp\<close>

text \<open>A successful \<open>updateTask\<close> stores the status of the body and the
  \<open>completedAt\<close> the task had; a successful \<open>updateTaskStatus\<close> that changes the
  status stores a task that has a \<open>completedAt\<close> exactly when it is completed.\<close>

lemma Task_findByIdAndUpdate_Some:
  assumes "Task_findByIdAndUpdate E now i b s = (Inr (Some t'), s')"
  shows "\<exists>old a. Task_findById i s = Some old \<and> t' = applyUpdate E b a old
           \<and> s' = s\<lparr>tasks := replaceFirst (\<lambda>d. task_id d = i) t' (tasks s)\<rparr>"
  using assms
  by (auto simp: Task_findByIdAndUpdate_def Let_def split: option.splits list.splits)

lemma applyUpdate_fields:
  "completedAt (applyUpdate E b a t) = completedAt t"
  "task_id (applyUpdate E b a t) = task_id t"
  "status (applyUpdate E b a t) = (case b_status b of None \<Rightarrow> status t | Some v \<Rightarrow> v)"
  by (simp_all add: applyUpdate_def)

lemma updateTask_keeps_completedAt:
  assumes "updateTask E now actor ident b s = (Inr (Some d), s')"
  shows "\<exists>i old. castObjectId E ident = Some i \<and> Task_findById i s = Some old
           \<and> Task_findById i s' = Some (doc d)
           \<and> completedAt (doc d) = completedAt old
           \<and> status (doc d) = (case b_status b of None \<Rightarrow> status old | Some v \<Rightarrow> v)"
proof -
  from assms obtain i where i: "castObjectId E ident = Some i"
    by (auto simp: updateTask_def split: if_splits option.splits)
  from assms i obtain old where old: "Task_findById i s = Some old"
    by (auto simp: updateTask_def split: if_splits option.splits)
  from assms i old obtain t' where
    u: "Task_findByIdAndUpdate E now i b s = (Inr (Some t'), s')" and d: "d = populate s' t'"
    by (auto simp: updateTask_def split: if_splits sum.splits prod.splits thrown.splits)
  from Task_findByIdAndUpdate_Some[OF u] old obtain a where
    t': "t' = applyUpdate E b a old" and
    s': "s' = s\<lparr>tasks := replaceFirst (\<lambda>d. task_id d = i) t' (tasks s)\<rparr>"
    by auto
  have "task_id t' = i" using t' old by (simp add: applyUpdate_fields Task_findById_id)
  then have "find (\<lambda>d. task_id d = i) (replaceFirst (\<lambda>d. task_id d = i) t' (tasks s)) = Some t'"
    using old unfolding Task_findById_def by (intro find_replaceFirst) auto
  then have "Task_findById i s' = Some t'" using s' by (simp add: Task_findById_def)
  moreover have "doc d = t'" using d by (simp add: populate_def)
  ultimately show ?thesis using i old t' by (auto simp: applyUpdate_fields)
qed

lemma updateTaskStatus_establishes_invariant:
  assumes "updateTaskStatus E now actor ident st s = (Inr d, s')"
      and "castObjectId E ident = Some i" and "Task_findById i s = Some old"
      and "st \<noteq> status old"
  shows "(completedAt (doc d) \<noteq> None) = (status (doc d) = ''completed'')"
proof -
  from updateTaskStatus_Inr[OF assms(1)] assms(2,3)
  have "doc d = taskSchema_pre_save now (st \<noteq> status old) (old\<lparr>status := st\<rparr>)" by auto
  with assms(4) show ?thesis by (auto simp: taskSchema_pre_save_def)
qed


text \<open>
  C1. The property: after every write that changes the status, by \<open>updateTaskStatus\<close>
  or by an \<open>updateTask\<close> whose body carries a status, the stored task has a
  \<open>completedAt\<close> exactly when its status is \<open>completed\<close>.
  It holds for \<open>updateTaskStatus\<close>, which saves the document, and fails for
  \<open>updateTask\<close>, which writes through \<open>findByIdAndUpdate\<close> and so never runs the
  pre-save hook: the pending task 16 of the sample store, updated by its assignee with
  \<open>{status: "completed"}\<close>, is stored as completed with \<open>completedAt\<close> still null.
\<close>

theorem updateTask_status_skips_completedAt:
  "(case updateTask ref_env 1000 alice id10
           \<lparr>b_title = None, b_description = None, b_dueDate = None, b_priority = None,
            b_status = Some ''completed'', b_assignedTo = None, b_tags = None\<rparr> store0 of
      (Inr (Some d), s1) \<Rightarrow>
        status (doc d) = ''completed'' \<and> completedAt (doc d) = None
        \<and> Task_findById 16 s1 = Some (doc d)
    | _ \<Rightarrow> False)"
  by code_simp

text \<open>
  C2. On a save that modifies the status, a task that becomes completed and has no
  \<open>completedAt\<close> gets the current time, and a task whose new status is not completed
  gets \<open>completedAt\<close> null; a save that does not modify the status leaves the task as
  it is. A successful \<open>updateTaskStatus\<close> stores the record the hook produces from the
  loaded task, and applying the same status a second time changes neither
  \<open>completedAt\<close> nor the store.
\<close>

theorem completedAt_follows_status_on_save:
  "(status t = ''completed'' \<and> completedAt t = None
      \<longrightarrow> completedAt (taskSchema_pre_save now True t) = Some now)
   \<and> (status t \<noteq> ''completed'' \<longrightarrow> completedAt (taskSchema_pre_save now True t) = None)
   \<and> taskSchema_pre_save now False t = t
   \<and> (updateTaskStatus E now actor ident st s = (Inr d, s1) \<longrightarrow>
        (\<exists>i old. castObjectId E ident = Some i \<and> Task_findById i s = Some old
           \<and> doc d = taskSchema_pre_save now (st \<noteq> status old) (old\<lparr>status := st\<rparr>)
           \<and> Task_findById i s1 = Some (doc d)))
   \<and> (updateTaskStatus E now actor ident st s = (Inr d, s1)
        \<and> updateTaskStatus E now2 actor ident st s1 = (Inr d2, s2)
      \<longrightarrow> completedAt (doc d2) = completedAt (doc d) \<and> s2 = s1)"
proof (intro conjI impI)
  assume "status t = ''completed'' \<and> completedAt t = None"
  then show "completedAt (taskSchema_pre_save now True t) = Some now"
    by (simp add: taskSchema_pre_save_def)
next
  assume "status t \<noteq> ''completed''"
  then show "completedAt (taskSchema_pre_save now True t) = None"
    by (simp add: taskSchema_pre_save_def)
next
  show "taskSchema_pre_save now False t = t"
    by (simp add: taskSchema_pre_save_def)
next
  assume "updateTaskStatus E now actor ident st s = (Inr d, s1)"
  from updateTaskStatus_Inr[OF this]
  show "\<exists>i old. castObjectId E ident = Some i \<and> Task_findById i s = Some old
           \<and> doc d = taskSchema_pre_save now (st \<noteq> status old) (old\<lparr>status := st\<rparr>)
           \<and> Task_findById i s1 = Some (doc d)"
    by blast
next
  assume a: "updateTaskStatus E now actor ident st s = (Inr d, s1)
        \<and> updateTaskStatus E now2 actor ident st s1 = (Inr d2, s2)"
  then show "completedAt (doc d2) = completedAt (doc d)"
    using updateTaskStatus_twice by metis
  from a show "s2 = s1"
    using updateTaskStatus_twice by metis
qed

theorem completedAt_follows_status_on_save_witness:
  "completedAt (taskSchema_pre_save 1000 True (task10\<lparr>status := ''completed''\<rparr>)) = Some 1000
   \<and> completedAt (taskSchema_pre_save 1000 True (task11\<lparr>status := ''pending''\<rparr>)) = None
   \<and> (case updateTaskStatus ref_env 1000 alice id10 ''completed'' store0 of
         (Inr d, s1) \<Rightarrow>
           completedAt (doc d) = Some 1000 \<and>
           (case updateTaskStatus ref_env 2000 alice id10 ''completed'' s1 of
              (Inr d2, s2) \<Rightarrow> completedAt (doc d2) = completedAt (doc d) \<and> s2 = s1
            | _ \<Rightarrow> False)
       | _ \<Rightarrow> False)"
proof -
  have h1: "status (task10\<lparr>status := ''completed''\<rparr>) = ''completed''
            \<and> completedAt (task10\<lparr>status := ''completed''\<rparr>) = None"
    by (simp add: task10_def)
  have h2: "status (task11\<lparr>status := ''pending''\<rparr>) \<noteq> ''completed''"
    by simp
  have e: "(case updateTaskStatus ref_env 1000 alice id10 ''completed'' store0 of
         (Inr d, s1) \<Rightarrow>
           completedAt (doc d) = Some 1000 \<and>
           (case updateTaskStatus ref_env 2000 alice id10 ''completed'' s1 of
              (Inr d2, s2) \<Rightarrow> True | _ \<Rightarrow> False)
       | _ \<Rightarrow> False)"
    by code_simp
  then obtain d s1 where
    r1: "updateTaskStatus ref_env 1000 alice id10 ''completed'' store0 = (Inr d, s1)"
    by (auto split: prod.splits sum.splits)
  with e obtain d2 s2 where
    r2: "updateTaskStatus ref_env 2000 alice id10 ''completed'' s1 = (Inr d2, s2)"
    by (auto split: prod.splits sum.splits)
  from e r1 have c: "completedAt (doc d) = Some 1000" by simp
  note T = completedAt_follows_status_on_save
  from T[of "task10\<lparr>status := ''completed''\<rparr>" 1000] h1
  have a1: "completedAt (taskSchema_pre_save 1000 True (task10\<lparr>status := ''completed''\<rparr>))
            = Some 1000"
    by blast
  from T[of "task11\<lparr>status := ''pending''\<rparr>" 1000] h2
  have a2: "completedAt (taskSchema_pre_save 1000 True (task11\<lparr>status := ''pending''\<rparr>)) = None"
    by blast
  from T[of _ 1000 ref_env alice id10 "''completed''" store0 d s1 2000 d2 s2] r1 r2
  have a3: "completedAt (doc d2) = completedAt (doc d) \<and> s2 = s1"
    by blast
  show ?thesis using a1 a2 a3 c r1 r2 by simp
qed

section \<open>Access to a task\<close>

text \<open>
  C3. For an actor who is not an administrator and an existing task of which the actor is
  neither creator nor assignee, \<open>getTaskById\<close> and \<open>updateTask\<close> answer 403 and the
  store is unchanged; \<open>deleteTask\<close> answers 403 whenever the actor is not the creator,
  the assignee included. For \<open>getTaskById\<close>, which tests the populated document, the
  users the task refers to are taken to exist.
\<close>

theorem task_access_forbidden:
  assumes "role actor \<noteq> ''admin''" and "ObjectId_isValid E ident"
      and "castObjectId E ident = Some i" and "Task_findById i s = Some t"
  shows "(assignedTo t \<noteq> user_id actor \<and> createdBy t \<noteq> user_id actor
          \<and> User_findById (assignedTo t) s \<noteq> None \<and> User_findById (createdBy t) s \<noteq> None
          \<longrightarrow> getTaskById E actor ident s = Inl (Fail 403 ''Access denied''))
       \<and> (assignedTo t \<noteq> user_id actor \<and> createdBy t \<noteq> user_id actor
          \<longrightarrow> updateTask E now actor ident b s = (Inl (Fail 403 ''Access denied''), s))
       \<and> (createdBy t \<noteq> user_id actor
          \<longrightarrow> deleteTask E actor ident s
                = (Inl (Fail 403 ''Only task creator or admin can delete tasks''), s))"
proof (intro conjI impI)
  assume a: "assignedTo t \<noteq> user_id actor \<and> createdBy t \<noteq> user_id actor
          \<and> User_findById (assignedTo t) s \<noteq> None \<and> User_findById (createdBy t) s \<noteq> None"
  then obtain ra rc where ra: "populateUser s (assignedTo t) = Some ra"
      and rc: "populateUser s (createdBy t) = Some rc"
    by (auto simp: populateUser_def)
  have "ref_id ra = assignedTo t" "ref_id rc = createdBy t"
    using ra rc by (auto dest: populateUser_ref_id)
  with a ra rc assms show "getTaskById E actor ident s = Inl (Fail 403 ''Access denied'')"
    by (simp add: getTaskById_def Let_def populateWithNotes_def populate_def)
next
  assume "assignedTo t \<noteq> user_id actor \<and> createdBy t \<noteq> user_id actor"
  with assms show "updateTask E now actor ident b s = (Inl (Fail 403 ''Access denied''), s)"
    by (simp add: updateTask_def)
next
  assume "createdBy t \<noteq> user_id actor"
  with assms show "deleteTask E actor ident s
                = (Inl (Fail 403 ''Only task creator or admin can delete tasks''), s)"
    by (simp add: deleteTask_def)
qed

theorem task_access_forbidden_witness:
  "getTaskById ref_env bob id11 store0 = Inl (Fail 403 ''Access denied'')
   \<and> updateTask ref_env 1000 bob id11
        \<lparr>b_title = Some ''Mine'', b_description = None, b_dueDate = None, b_priority = None,
         b_status = None, b_assignedTo = None, b_tags = None\<rparr> store0
       = (Inl (Fail 403 ''Access denied''), store0)
   \<and> assignedTo task10 = user_id alice
   \<and> deleteTask ref_env alice id10 store0
       = (Inl (Fail 403 ''Only task creator or admin can delete tasks''), store0)"
proof -
  have b: "role bob \<noteq> ''admin''" "ObjectId_isValid ref_env id11"
    "castObjectId ref_env id11 = Some 17" "Task_findById 17 store0 = Some task11"
    by code_simp+
  have b': "assignedTo task11 \<noteq> user_id bob \<and> createdBy task11 \<noteq> user_id bob
      \<and> User_findById (assignedTo task11) store0 \<noteq> None
      \<and> User_findById (createdBy task11) store0 \<noteq> None"
    by code_simp
  have a: "role alice \<noteq> ''admin''" "ObjectId_isValid ref_env id10"
    "castObjectId ref_env id10 = Some 16" "Task_findById 16 store0 = Some task10"
    by code_simp+
  have a': "createdBy task10 \<noteq> user_id alice" "assignedTo task10 = user_id alice"
    by code_simp+
  from task_access_forbidden[OF b] b' task_access_forbidden[OF a] a'
  show ?thesis by blast
qed


text \<open>
  C10. An id string that \<open>ObjectId.isValid\<close> refuses is answered with 400
  \<open>Invalid task ID\<close> by \<open>getTaskById\<close>, \<open>updateTask\<close>, \<open>updateTaskStatus\<close> and
  \<open>deleteTask\<close>, whatever the store holds and without a change of it; a 404 is only
  answered for a valid id whose cast matches no task.
\<close>

theorem invalid_task_id_rejected:
  "(\<not> ObjectId_isValid E ident \<longrightarrow>
      getTaskById E actor ident s = Inl (Fail 400 ''Invalid task ID'')
      \<and> updateTask E now actor ident b s = (Inl (Fail 400 ''Invalid task ID''), s)
      \<and> updateTaskStatus E now actor ident st s = (Inl (Fail 400 ''Invalid task ID''), s)
      \<and> deleteTask E actor ident s = (Inl (Fail 400 ''Invalid task ID''), s))
   \<and> (getTaskById E actor ident s = Inl (Fail 404 m)
       \<or> fst (updateTask E now actor ident b s) = Inl (Fail 404 m)
       \<or> fst (updateTaskStatus E now actor ident st s) = Inl (Fail 404 m)
       \<or> fst (deleteTask E actor ident s) = Inl (Fail 404 m)
      \<longrightarrow> ObjectId_isValid E ident
          \<and> (\<exists>i. castObjectId E ident = Some i \<and> Task_findById i s = None))"
proof (intro conjI impI)
  assume "getTaskById E actor ident s = Inl (Fail 404 m)
       \<or> fst (updateTask E now actor ident b s) = Inl (Fail 404 m)
       \<or> fst (updateTaskStatus E now actor ident st s) = Inl (Fail 404 m)
       \<or> fst (deleteTask E actor ident s) = Inl (Fail 404 m)"
  then have r: "ObjectId_isValid E ident
          \<and> (\<exists>i. castObjectId E ident = Some i \<and> Task_findById i s = None)"
    by (elim disjE) (erule getTaskById_404 updateTask_404 updateTaskStatus_404 deleteTask_404)+
  from r show "ObjectId_isValid E ident" ..
  from r show "\<exists>i. castObjectId E ident = Some i \<and> Task_findById i s = None" ..
qed (simp_all add: getTaskById_def updateTask_def updateTaskStatus_def deleteTask_def)

theorem invalid_task_id_rejected_witness:
  "\<not> ObjectId_isValid ref_env ''not-an-id''
   \<and> getTaskById ref_env alice ''not-an-id'' store0 = Inl (Fail 400 ''Invalid task ID'')
   \<and> updateTask ref_env 1000 alice ''not-an-id''
        \<lparr>b_title = Some ''x'', b_description = None, b_dueDate = None, b_priority = None,
         b_status = None, b_assignedTo = None, b_tags = None\<rparr> store0
       = (Inl (Fail 400 ''Invalid task ID''), store0)
   \<and> updateTaskStatus ref_env 1000 alice ''not-an-id'' ''completed'' store0
       = (Inl (Fail 400 ''Invalid task ID''), store0)
   \<and> deleteTask ref_env alice ''not-an-id'' store0 = (Inl (Fail 400 ''Invalid task ID''), store0)
   \<and> getTaskById ref_env alice ''0000000000000000000000ff'' store0 = Inl (Fail 404 ''Task not found'')
   \<and> ObjectId_isValid ref_env ''0000000000000000000000ff''
   \<and> (\<exists>i. castObjectId ref_env ''0000000000000000000000ff'' = Some i \<and> Task_findById i store0 = None)"
proof -
  have n: "\<not> ObjectId_isValid ref_env ''not-an-id''" by code_simp
  have f: "getTaskById ref_env alice ''0000000000000000000000ff'' store0 = Inl (Fail 404 ''Task not found'')"
    by code_simp
  note T = invalid_task_id_rejected
  from T[where E = ref_env and ident = "''not-an-id''" and actor = alice and s = store0
           and now = 1000 and st = "''completed''"] n
    T[where E = ref_env and ident = "''0000000000000000000000ff''" and actor = alice
        and s = store0 and m = "''Task not found''"] f
  show ?thesis by blast
qed

section \<open>Listing and pagination\<close>

lemma buildTaskFilter_nonadmin:
  "role actor \<noteq> ''admin'' \<Longrightarrow>
     buildTaskFilter actor (q\<lparr>q_assignedTo := a\<rparr>) = (buildTaskFilter actor q)"
  by (simp add: buildTaskFilter_def)

lemma buildTaskFilter_page:
  "buildTaskFilter actor (q\<lparr>q_page := p, q_limit := l\<rparr>) = buildTaskFilter actor q"
  by (simp add: buildTaskFilter_def)

lemma taskMatcher_assignedTo:
  "taskMatcher E f = Some m \<Longrightarrow> f_assignedTo f = Some (IdObject i) \<Longrightarrow> m t \<Longrightarrow> assignedTo t = i"
  by (auto simp: taskMatcher_def split: option.splits)

lemma doc_populate: "map doc (map (populate s) xs) = xs"
  by (induction xs) (simp_all add: populate_def)

lemma Task_find_subset:
  "Task_find E f sortBy desc skip limit s = Inr found \<Longrightarrow>
     \<exists>m. taskMatcher E f = Some m
        \<and> set found \<subseteq> set (sortTasks E sortBy desc (filter m (tasks s)))"
  by (auto simp: Task_find_def Let_def split: option.splits if_splits
      dest: in_set_takeD in_set_dropD)

lemma getTasks_Inr:
  assumes "getTasks E actor q s = Inr r"
  shows "\<exists>m sortBy desc.
           taskMatcher E (buildTaskFilter actor q) = Some m
         \<and> set (map doc (page_tasks r)) \<subseteq> set (sortTasks E sortBy desc (filter m (tasks s)))"
proof -
  define page where "page = (case q_page q of None \<Rightarrow> 1 | Some n \<Rightarrow> n)"
  define limit where "limit = (case q_limit q of None \<Rightarrow> 10 | Some n \<Rightarrow> n)"
  define sortBy where "sortBy = (case q_sortBy q of None \<Rightarrow> ''dueDate'' | Some f \<Rightarrow> f)"
  define desc where "desc = ((case q_sortOrder q of None \<Rightarrow> ''asc'' | Some v \<Rightarrow> v) = ''desc'')"
  from assms obtain found where
    f: "Task_find E (buildTaskFilter actor q) sortBy desc ((page - 1) * limit) limit s = Inr found"
    and r: "page_tasks r = map (populate s) found"
    unfolding getTasks_def Let_def page_def limit_def sortBy_def desc_def
    by (auto split: sum.splits)
  from Task_find_subset[OF f] obtain m where
    m: "taskMatcher E (buildTaskFilter actor q) = Some m" and
    sub: "set found \<subseteq> set (sortTasks E sortBy desc (filter m (tasks s)))"
    by blast
  have "map doc (page_tasks r) = found"
    using r by (simp add: doc_populate del: map_map)
  with m sub show ?thesis by blast
qed

lemma getTasks_page:
  assumes "1 \<le> p" and "1 \<le> limit" and "taskMatcher E (buildTaskFilter actor q) = Some m"
  shows "getTasks E actor (q\<lparr>q_page := Some p, q_limit := Some limit\<rparr>) s =
     Inr \<lparr>page_tasks = map (populate s)
             (take (nat limit) (drop (nat ((p - 1) * limit))
                (sortTasks E (case q_sortBy q of None \<Rightarrow> ''dueDate'' | Some f \<Rightarrow> f)
                   ((case q_sortOrder q of None \<Rightarrow> ''asc'' | Some v \<Rightarrow> v) = ''desc'')
                   (filter m (tasks s))))),
          page_pagination = paginate p limit (int (length (filter m (tasks s))))\<rparr>"
proof -
  have "0 \<le> (p - 1) * limit" using assms(1,2) by simp
  then have "\<not> (p - 1) * limit < 0" by simp
  moreover have "limit \<noteq> 0" "\<bar>limit\<bar> = limit" using assms(2) by simp_all
  ultimately show ?thesis
    using assms(3)
    by (simp add: getTasks_def Let_def Task_find_def Task_countDocuments_def buildTaskFilter_page)
qed

lemma concat_pages_nat:
  "concat (map (\<lambda>k. take l (drop (k * l) xs)) [0..<n]) = take (n * l) xs"
proof (induction n)
  case 0
  then show ?case by simp
next
  case (Suc n)
  have "take (n * l + l) xs = take (n * l) xs @ take l (drop (n * l) xs)"
    by (simp add: take_add)
  with Suc show ?case by (simp add: add.commute)
qed

lemma upto_from_one: "[1..int n] = map (\<lambda>k. int k + 1) [0..<n]"
proof (induction n)
  case 0
  then show ?case by simp
next
  case (Suc n)
  have "[1..int (Suc n)] = [1..int n] @ [int n + 1]"
    using upto_rec2[of 1 "int n + 1"] by (simp add: add.commute)
  with Suc show ?case by simp
qed

lemma concat_pages_int:
  assumes "1 \<le> limit" and "int (length xs) \<le> N * limit" and "0 \<le> N"
  shows "concat (map (\<lambda>p. take (nat limit) (drop (nat ((p - 1) * limit)) xs)) [1..N]) = xs"
proof -
  have N: "[1..N] = map (\<lambda>k. int k + 1) [0..<nat N]"
    using upto_from_one[of "nat N"] assms(3) by simp
  have k: "\<And>k. nat (int k * limit) = k * nat limit"
    using assms(1) by (simp add: nat_mult_distrib)
  have "concat (map (\<lambda>p. take (nat limit) (drop (nat ((p - 1) * limit)) xs)) [1..N])
        = concat (map (\<lambda>k. take (nat limit) (drop (k * nat limit) xs)) [0..<nat N])"
    by (simp add: N comp_def k)
  also have "\<dots> = take (nat N * nat limit) xs" by (rule concat_pages_nat)
  also have "\<dots> = xs"
  proof -
    have "int (length xs) \<le> int (nat N * nat limit)"
      using assms by simp
    then have "length xs \<le> nat N * nat limit" by linarith
    then show ?thesis by simp
  qed
  finally show ?thesis .
qed

lemma count_le_pages:
  assumes "1 \<le> limit" and "0 \<le> n"
  shows "n \<le> \<lceil>real_of_int n / real_of_int limit\<rceil> * limit \<and> 0 \<le> \<lceil>real_of_int n / real_of_int limit\<rceil>"
proof -
  have l: "0 < real_of_int limit" using assms(1) by simp
  have "real_of_int n / real_of_int limit \<le> real_of_int \<lceil>real_of_int n / real_of_int limit\<rceil>"
    by (rule le_of_int_ceiling)
  then have "real_of_int n \<le> real_of_int \<lceil>real_of_int n / real_of_int limit\<rceil> * real_of_int limit"
    unfolding pos_divide_le_eq[OF l] .
  then have "real_of_int n \<le> real_of_int (\<lceil>real_of_int n / real_of_int limit\<rceil> * limit)"
    by simp
  then have 1: "n \<le> \<lceil>real_of_int n / real_of_int limit\<rceil> * limit" by linarith
  have "0 \<le> real_of_int n / real_of_int limit" using l assms(2) by simp
  then have 2: "0 \<le> \<lceil>real_of_int n / real_of_int limit\<rceil>" by linarith
  from 1 2 show ?thesis ..
qed


lemma sortPermutes_set: "sortPermutes E \<Longrightarrow> set (sortTasks E f d xs) = set xs"
  unfolding sortPermutes_def by (metis mset_eq_setD)

lemma sortPermutes_ref_env: "sortPermutes ref_env"
  by (simp add: sortPermutes_def ref_env_def)

lemma matcher_alice:
  "taskMatcher ref_env (buildTaskFilter alice query0) = Some (\<lambda>t. assignedTo t = 2)"
  by (simp add: taskMatcher_def buildTaskFilter_def query0_def alice_def truthy_def)

text \<open>
  C4. For an actor who is not an administrator, \<open>getTasks\<close> queries the tasks whose
  \<open>assignedTo\<close> is the actor's own id whatever \<open>assignedTo\<close> the request supplies: two
  requests that differ only in that parameter have the same result, and every task
  returned is assigned to the actor (the store's sort returning a permutation of its
  input).
\<close>

theorem listTasks_scoped_to_actor:
  assumes "role actor \<noteq> ''admin''"
  shows "getTasks E actor (q\<lparr>q_assignedTo := a1\<rparr>) s = getTasks E actor (q\<lparr>q_assignedTo := a2\<rparr>) s
       \<and> f_assignedTo (buildTaskFilter actor q) = Some (IdObject (user_id actor))
       \<and> (sortPermutes E \<and> getTasks E actor q s = Inr r
            \<longrightarrow> (\<forall>d\<in>set (page_tasks r). assignedTo (doc d) = user_id actor))"
proof (intro conjI impI)
  show "getTasks E actor (q\<lparr>q_assignedTo := a1\<rparr>) s = getTasks E actor (q\<lparr>q_assignedTo := a2\<rparr>) s"
    using assms by (simp add: getTasks_def buildTaskFilter_nonadmin)
  show fa: "f_assignedTo (buildTaskFilter actor q) = Some (IdObject (user_id actor))"
    using assms by (simp add: buildTaskFilter_def)
  assume a: "sortPermutes E \<and> getTasks E actor q s = Inr r"
  then obtain m sortBy desc where
    m: "taskMatcher E (buildTaskFilter actor q) = Some m" and
    sub: "set (map doc (page_tasks r)) \<subseteq> set (sortTasks E sortBy desc (filter m (tasks s)))"
    using getTasks_Inr by blast
  show "\<forall>d\<in>set (page_tasks r). assignedTo (doc d) = user_id actor"
  proof
    fix d assume "d \<in> set (page_tasks r)"
    then have "doc d \<in> set (map doc (page_tasks r))" by simp
    with sub have "doc d \<in> set (sortTasks E sortBy desc (filter m (tasks s)))" by blast
    with a have "doc d \<in> set (filter m (tasks s))" by (simp only: sortPermutes_set)
    then have "m (doc d)" by simp
    with m fa show "assignedTo (doc d) = user_id actor" by (rule taskMatcher_assignedTo)
  qed
qed

theorem listTasks_scoped_to_actor_witness:
  "getTasks ref_env alice (query0\<lparr>q_assignedTo := Some id_bob\<rparr>) store0
     = getTasks ref_env alice (query0\<lparr>q_assignedTo := None\<rparr>) store0
   \<and> sortPermutes ref_env
   \<and> (\<exists>r. getTasks ref_env alice (query0\<lparr>q_assignedTo := Some id_bob\<rparr>) store0 = Inr r
        \<and> map (task_id \<circ> doc) (page_tasks r) = [17, 16, 18]
        \<and> (\<forall>d\<in>set (page_tasks r). assignedTo (doc d) = user_id alice))"
proof -
  have a: "role alice \<noteq> ''admin''" by code_simp
  have e: "(case getTasks ref_env alice (query0\<lparr>q_assignedTo := Some id_bob\<rparr>) store0 of
              Inr r \<Rightarrow> map (task_id \<circ> doc) (page_tasks r) = [17, 16, 18] | Inl f \<Rightarrow> False)"
    by code_simp
  then obtain r where r: "getTasks ref_env alice (query0\<lparr>q_assignedTo := Some id_bob\<rparr>) store0 = Inr r"
    and ids: "map (task_id \<circ> doc) (page_tasks r) = [17, 16, 18]"
    by (auto split: sum.splits)
  note T = listTasks_scoped_to_actor[OF a, where E = ref_env and s = store0]
  from T[where q = query0 and ?a1.0 = "Some id_bob" and ?a2.0 = None]
  have 1: "getTasks ref_env alice (query0\<lparr>q_assignedTo := Some id_bob\<rparr>) store0
     = getTasks ref_env alice (query0\<lparr>q_assignedTo := None\<rparr>) store0"
    by blast
  from T[where q = "query0\<lparr>q_assignedTo := Some id_bob\<rparr>" and r = r] r sortPermutes_ref_env
  have 2: "\<forall>d\<in>set (page_tasks r). assignedTo (doc d) = user_id alice"
    by blast
  show ?thesis
    by (intro conjI exI[of _ r]) (fact 1 | fact 2 | fact r | fact ids | fact sortPermutes_ref_env)+
qed


text \<open>
  C5. For a listing with \<open>page \<ge> 1\<close> and \<open>limit \<ge> 1\<close> whose filter the store accepts:
  \<open>totalTasks\<close> is the number of matching tasks, \<open>totalPages\<close> is the ceiling of
  \<open>totalTasks / limit\<close>, \<open>hasNext\<close> is \<open>currentPage < totalPages\<close>, \<open>hasPrev\<close> is
  \<open>currentPage > 1\<close>, the page holds at most \<open>limit\<close> records, and the pages 1 to
  \<open>totalPages\<close>, one after the other, are the sorted list of the matching tasks: each
  matching record occurs in them exactly as often as in the store. The sort is a function
  of the matching tasks (the same on every request) that returns a permutation of them.
\<close>

theorem pagination_covers_filtered_set:
  assumes "1 \<le> page" and "1 \<le> limit"
      and "taskMatcher E (buildTaskFilter actor q) = Some m"
      and "sortPermutes E"
  shows "\<exists>r. getTasks E actor (q\<lparr>q_page := Some page, q_limit := Some limit\<rparr>) s = Inr r
       \<and> currentPage (page_pagination r) = page
       \<and> totalTasks (page_pagination r) = int (length (filter m (tasks s)))
       \<and> totalPages (page_pagination r)
           = Some \<lceil>real_of_int (totalTasks (page_pagination r)) / real_of_int limit\<rceil>
       \<and> hasNext (page_pagination r)
           = (page < \<lceil>real_of_int (totalTasks (page_pagination r)) / real_of_int limit\<rceil>)
       \<and> hasPrev (page_pagination r) = (page > 1)
       \<and> int (length (page_tasks r)) \<le> limit
       \<and> concat (map (pageRecords E actor q s limit)
            [1..\<lceil>real_of_int (totalTasks (page_pagination r)) / real_of_int limit\<rceil>])
           = sortTasks E (case q_sortBy q of None \<Rightarrow> ''dueDate'' | Some f \<Rightarrow> f)
               ((case q_sortOrder q of None \<Rightarrow> ''asc'' | Some v \<Rightarrow> v) = ''desc'')
               (filter m (tasks s))
       \<and> mset (concat (map (pageRecords E actor q s limit)
            [1..\<lceil>real_of_int (totalTasks (page_pagination r)) / real_of_int limit\<rceil>]))
           = mset (filter m (tasks s))"
proof -
  define sorted where "sorted = sortTasks E (case q_sortBy q of None \<Rightarrow> ''dueDate'' | Some f \<Rightarrow> f)
               ((case q_sortOrder q of None \<Rightarrow> ''asc'' | Some v \<Rightarrow> v) = ''desc'')
               (filter m (tasks s))"
  define n where "n = int (length (filter m (tasks s)))"
  define N where "N = \<lceil>real_of_int n / real_of_int limit\<rceil>"
  define r where "r = \<lparr>page_tasks = map (populate s)
             (take (nat limit) (drop (nat ((page - 1) * limit)) sorted)),
          page_pagination = paginate page limit n\<rparr>"
  have g: "getTasks E actor (q\<lparr>q_page := Some page, q_limit := Some limit\<rparr>) s = Inr r"
    unfolding r_def sorted_def n_def by (rule getTasks_page[OF assms(1-3)])
  have l0: "limit \<noteq> 0" using assms(2) by simp
  have p: "currentPage (page_pagination r) = page" "totalTasks (page_pagination r) = n"
    "totalPages (page_pagination r) = Some N" "hasNext (page_pagination r) = (page < N)"
    "hasPrev (page_pagination r) = (page > 1)"
    using l0 by (simp_all add: r_def paginate_def N_def)
  have len: "int (length (page_tasks r)) \<le> limit"
    using assms(2) by (simp add: r_def)
  have pr: "\<And>p. 1 \<le> p \<Longrightarrow> pageRecords E actor q s limit p
              = take (nat limit) (drop (nat ((p - 1) * limit)) sorted)"
    unfolding pageRecords_def sorted_def
    by (simp add: getTasks_page[OF _ assms(2,3)] doc_populate del: map_map)
  have ms: "mset sorted = mset (filter m (tasks s))"
    using assms(4) unfolding sorted_def sortPermutes_def by blast
  then have "length sorted = length (filter m (tasks s))"
    by (metis size_mset)
  then have ls: "int (length sorted) = n" by (simp add: n_def)
  have "n \<le> N * limit \<and> 0 \<le> N"
    unfolding N_def by (rule count_le_pages[OF assms(2)]) (simp add: n_def)
  with ls have cp: "concat (map (\<lambda>p. take (nat limit) (drop (nat ((p - 1) * limit)) sorted)) [1..N])
        = sorted"
    by (intro concat_pages_int[OF assms(2)]) simp_all
  have mp: "map (pageRecords E actor q s limit) [1..N]
        = map (\<lambda>p. take (nat limit) (drop (nat ((p - 1) * limit)) sorted)) [1..N]"
    by (rule map_cong) (simp_all add: pr)
  have c: "concat (map (pageRecords E actor q s limit) [1..N]) = sorted"
    unfolding mp by (rule cp)
  have N': "\<lceil>real_of_int (totalTasks (page_pagination r)) / real_of_int limit\<rceil> = N"
    by (simp add: p N_def)
  show ?thesis
  proof (intro exI[of _ r] conjI)
    show "getTasks E actor (q\<lparr>q_page := Some page, q_limit := Some limit\<rparr>) s = Inr r"
      by (rule g)
    show "currentPage (page_pagination r) = page" by (rule p)
    show "totalTasks (page_pagination r) = int (length (filter m (tasks s)))"
      using p(2) by (simp add: n_def)
    show "totalPages (page_pagination r)
           = Some \<lceil>real_of_int (totalTasks (page_pagination r)) / real_of_int limit\<rceil>"
      unfolding N' by (rule p)
    show "hasNext (page_pagination r)
           = (page < \<lceil>real_of_int (totalTasks (page_pagination r)) / real_of_int limit\<rceil>)"
      unfolding N' by (rule p)
    show "hasPrev (page_pagination r) = (page > 1)" by (rule p)
    show "int (length (page_tasks r)) \<le> limit" by (rule len)
    show "concat (map (pageRecords E actor q s limit)
            [1..\<lceil>real_of_int (totalTasks (page_pagination r)) / real_of_int limit\<rceil>])
           = sortTasks E (case q_sortBy q of None \<Rightarrow> ''dueDate'' | Some f \<Rightarrow> f)
               ((case q_sortOrder q of None \<Rightarrow> ''asc'' | Some v \<Rightarrow> v) = ''desc'')
               (filter m (tasks s))"
      unfolding N' c by (rule sorted_def)
    show "mset (concat (map (pageRecords E actor q s limit)
            [1..\<lceil>real_of_int (totalTasks (page_pagination r)) / real_of_int limit\<rceil>]))
           = mset (filter m (tasks s))"
      unfolding N' c by (rule ms)
  qed
qed

theorem pagination_covers_filtered_set_witness:
  "(\<exists>r. getTasks ref_env alice (query0\<lparr>q_page := Some 1, q_limit := Some 2\<rparr>) store0 = Inr r
       \<and> totalTasks (page_pagination r) = 3
       \<and> totalPages (page_pagination r) = Some 2
       \<and> hasNext (page_pagination r) \<and> \<not> hasPrev (page_pagination r)
       \<and> int (length (page_tasks r)) \<le> 2)
   \<and> map task_id (pageRecords ref_env alice query0 store0 2 1) = [17, 16]
   \<and> map task_id (pageRecords ref_env alice query0 store0 2 2) = [18]
   \<and> mset (concat (map (pageRecords ref_env alice query0 store0 2) [1..2]))
       = mset (filter (\<lambda>t. assignedTo t = 2) (tasks store0))"
proof -
  have n: "int (length (filter (\<lambda>t. assignedTo t = 2) (tasks store0))) = 3"
    by (simp add: store0_def task10_def task11_def task12_def)
  have c: "\<lceil>real_of_int 3 / real_of_int 2\<rceil> = (2::int)" by simp
  have pg: "map task_id (pageRecords ref_env alice query0 store0 2 1) = [17, 16]"
    "map task_id (pageRecords ref_env alice query0 store0 2 2) = [18]"
    by code_simp+
  note T = pagination_covers_filtered_set[of 1 2 ref_env alice query0 "\<lambda>t. assignedTo t = 2" store0,
      OF _ _ matcher_alice sortPermutes_ref_env]
  have T': "\<exists>r. getTasks ref_env alice (query0\<lparr>q_page := Some 1, q_limit := Some 2\<rparr>) store0 = Inr r
       \<and> totalTasks (page_pagination r) = 3
       \<and> totalPages (page_pagination r) = Some 2
       \<and> hasNext (page_pagination r) = (1 < (2::int))
       \<and> hasPrev (page_pagination r) = ((1::int) > 1)
       \<and> int (length (page_tasks r)) \<le> 2
       \<and> mset (concat (map (pageRecords ref_env alice query0 store0 2) [1..2]))
           = mset (filter (\<lambda>t. assignedTo t = 2) (tasks store0))"
    using T n c by (auto simp del: mset_filter)
  then show ?thesis using pg by auto
qed

section \<open>Derived fields at read time\<close>

text \<open>\<open>isOverdue\<close> and the serialised document; \<open>daysUntilDue\<close> where the offset of local
  time never changes.\<close>

lemma isOverdue_iff: "isOverdue now t = (status t \<noteq> ''completed'' \<and> now > dueDate t)"
  by (simp add: isOverdue_def)

lemma isOverdue_completed: "status t = ''completed'' \<Longrightarrow> \<not> isOverdue now t"
  by (simp add: isOverdue_def)

lemma toJSON_virtuals:
  "toJSON E now d =
     \<lparr>json_task = d, json_isOverdue = isOverdue now (doc d),
      json_daysUntilDue = daysUntilDue E now (doc d),
      json_priorityColor = priorityColor (doc d)\<rparr>"
  by (simp add: toJSON_def)

lemma setHours0_constant_offset:
  assumes "\<And>t u. LocalTZA E t u = c"
  shows "setHours0 E d = localDay E d * 86400000 - c"
  by (simp add: setHours0_def localDay_def Let_def assms)

lemma ceiling_whole_days: "\<lceil>real_of_int (k * 86400000) / (1000 * 60 * 60 * 24)\<rceil> = k"
  by simp

lemma daysUntilDue_constant_offset:
  assumes "\<And>t u. LocalTZA E t u = c"
  shows "daysUntilDue E now t = localDay E (dueDate t) - localDay E now"
proof -
  have "setHours0 E (dueDate t) - setHours0 E now
        = (localDay E (dueDate t) - localDay E now) * 86400000"
    by (simp add: setHours0_constant_offset[OF assms] algebra_simps)
  then show ?thesis
    unfolding daysUntilDue_def Let_def by (simp only: ceiling_whole_days)
qed

text \<open>
  C6. The property: \<open>isOverdue\<close> holds exactly when the status is not \<open>completed\<close> and
  the read time is past the due date, and \<open>daysUntilDue\<close> is the difference in days
  between the day of the due date and today, negative for a due day in the past; both are
  computed at the time of the read. The first and the last hold. \<open>daysUntilDue\<close> divides
  the distance of two local midnights by 24 hours and rounds up, and the local days of a
  clock change are 25 and 23 hours long: in New York at noon of 2024-11-03 a task due at
  noon of the next day has \<open>daysUntilDue\<close> 2, and at noon of 2024-03-11 a pending task
  due at noon of the day before is overdue and has \<open>daysUntilDue\<close> 0.
\<close>

theorem daysUntilDue_across_clock_change:
  "localDay newYork_env (dueDate task_nov4) - localDay newYork_env 1730653200000 = 1
   \<and> daysUntilDue newYork_env 1730653200000 task_nov4 = 2
   \<and> localDay newYork_env (dueDate task_mar10) - localDay newYork_env 1710172800000 = - 1
   \<and> isOverdue 1710172800000 task_mar10
   \<and> daysUntilDue newYork_env 1710172800000 task_mar10 = 0"
  by code_simp

section \<open>Deleting a user\<close>

lemma mset_deleteFirst_add:
  "find P xs = Some x \<Longrightarrow> mset xs = add_mset x (mset (deleteFirst P xs))"
  by (induction xs) (auto split: if_splits)

lemma mset_deleteFirst: "find P xs = Some x \<Longrightarrow> mset (deleteFirst P xs) = mset xs - {#x#}"
  by (drule mset_deleteFirst_add[where P = P]) simp

lemma find_deleteFirst_other:
  "(\<And>x. Q x \<Longrightarrow> \<not> P x) \<Longrightarrow> find Q (deleteFirst P xs) = find Q xs"
  by (induction xs) auto

lemma find_deleteFirst_distinct:
  "distinct (map f xs) \<Longrightarrow> find (\<lambda>x. f x = i) (deleteFirst (\<lambda>x. f x = i) xs) = None"
proof (induction xs)
  case Nil
  then show ?case by simp
next
  case (Cons x xs)
  show ?case
  proof (cases "f x = i")
    case True
    with Cons.prems have "i \<notin> f ` set xs" by simp
    then have "\<forall>y\<in>set xs. f y \<noteq> i" by blast
    then have "find (\<lambda>x. f x = i) xs = None" by (simp add: find_None_iff)
    with True show ?thesis by simp
  next
    case False
    with Cons show ?thesis by simp
  qed
qed

lemma countUserTasks_pos:
  "0 < countUserTasks i s \<longleftrightarrow> (\<exists>t\<in>set (tasks s). assignedTo t = i \<or> createdBy t = i)"
  by (auto simp: countUserTasks_def filter_empty_conv)

lemma adminAuth_admin: "role actor = ''admin'' \<Longrightarrow> adminAuth (Some actor) = None"
  by (simp add: adminAuth_def)

text \<open>
  C7. For an administrator and an existing user other than the administrator:
  \<open>deleteUser\<close> answers 400 and leaves the store as it is when some task has the user as
  assignee or creator; when no task does, it succeeds and removes the user's record
  (the tasks and every other user stay, and no record with the id is left when ids are
  unique).
\<close>

theorem deleteUser_blocked_while_referenced:
  assumes "role actor = ''admin''" and "ObjectId_isValid E ident"
      and "castObjectId E ident = Some i" and "User_findById i s = Some u"
      and "user_id actor \<noteq> i"
  shows "((\<exists>t\<in>set (tasks s). assignedTo t = i \<or> createdBy t = i) \<longrightarrow>
            route_deleteUser E actor ident s =
              (Inl (Fail 400 (''Cannot delete user. They have '' @ decimal (countUserTasks i s)
                     @ '' task(s) associated with them. ''
                     @ ''Please reassign or delete those tasks first.'')), s))
       \<and> (\<not> (\<exists>t\<in>set (tasks s). assignedTo t = i \<or> createdBy t = i) \<longrightarrow>
            (\<exists>s'. route_deleteUser E actor ident s = (Inr (), s')
                 \<and> mset (users s') = mset (users s) - {#u#}
                 \<and> tasks s' = tasks s
                 \<and> (\<forall>j. j \<noteq> i \<longrightarrow> User_findById j s' = User_findById j s)
                 \<and> (distinct (map user_id (users s)) \<longrightarrow> User_findById i s' = None)))"
proof (intro conjI impI)
  have uid: "user_id u = i"
    using assms(4) unfolding User_findById_def by (auto dest: find_Some_P)
  {
    assume "\<exists>t\<in>set (tasks s). assignedTo t = i \<or> createdBy t = i"
    then have "0 < countUserTasks i s" by (simp add: countUserTasks_pos)
    with assms uid show "route_deleteUser E actor ident s =
              (Inl (Fail 400 (''Cannot delete user. They have '' @ decimal (countUserTasks i s)
                     @ '' task(s) associated with them. ''
                     @ ''Please reassign or delete those tasks first.'')), s)"
      by (simp add: route_deleteUser_def adminAuth_admin deleteUser_def Let_def)
  }
  {
    assume "\<not> (\<exists>t\<in>set (tasks s). assignedTo t = i \<or> createdBy t = i)"
    then have z: "\<not> 0 < countUserTasks i s" by (simp add: countUserTasks_pos)
    define s' where "s' = s\<lparr>users := deleteFirst (\<lambda>d. user_id d = i) (users s)\<rparr>"
    have r: "route_deleteUser E actor ident s = (Inr (), s')"
      using assms uid z
      by (simp add: route_deleteUser_def adminAuth_admin deleteUser_def Let_def s'_def)
    have m: "mset (users s') = mset (users s) - {#u#}"
      using assms(4) by (simp add: s'_def User_findById_def mset_deleteFirst)
    have o: "\<forall>j. j \<noteq> i \<longrightarrow> User_findById j s' = User_findById j s"
      by (auto simp: s'_def User_findById_def intro!: find_deleteFirst_other)
    have d: "distinct (map user_id (users s)) \<longrightarrow> User_findById i s' = None"
      by (simp add: s'_def User_findById_def find_deleteFirst_distinct)
    from r m o d show "\<exists>s'. route_deleteUser E actor ident s = (Inr (), s')
                 \<and> mset (users s') = mset (users s) - {#u#}
                 \<and> tasks s' = tasks s
                 \<and> (\<forall>j. j \<noteq> i \<longrightarrow> User_findById j s' = User_findById j s)
                 \<and> (distinct (map user_id (users s)) \<longrightarrow> User_findById i s' = None)"
      by (intro exI[of _ s']) (simp add: s'_def)
  }
qed

theorem deleteUser_blocked_while_referenced_witness:
  "(\<exists>t\<in>set (tasks store0). assignedTo t = 3 \<or> createdBy t = 3)
   \<and> fst (route_deleteUser ref_env admin0 id_bob store0) =
       Inl (Fail 400 (''Cannot delete user. They have 1 task(s) associated with them. ''
                      @ ''Please reassign or delete those tasks first.''))
   \<and> snd (route_deleteUser ref_env admin0 id_bob store0) = store0
   \<and> \<not> (\<exists>t\<in>set (tasks store0). assignedTo t = 4 \<or> createdBy t = 4)
   \<and> distinct (map user_id (users store0))
   \<and> fst (route_deleteUser ref_env admin0 id_carol store0) = Inr ()
   \<and> User_findById 4 (snd (route_deleteUser ref_env admin0 id_carol store0)) = None
   \<and> User_findById 3 (snd (route_deleteUser ref_env admin0 id_carol store0)) = Some bob"
proof -
  have b: "role admin0 = ''admin''" "ObjectId_isValid ref_env id_bob"
    "castObjectId ref_env id_bob = Some 3" "User_findById 3 store0 = Some bob"
    "user_id admin0 \<noteq> 3"
    by code_simp+
  have c: "role admin0 = ''admin''" "ObjectId_isValid ref_env id_carol"
    "castObjectId ref_env id_carol = Some 4" "User_findById 4 store0 = Some carol"
    "user_id admin0 \<noteq> 4"
    by code_simp+
  have rb: "\<exists>t\<in>set (tasks store0). assignedTo t = 3 \<or> createdBy t = 3"
    by (simp add: store0_def task10_def task11_def task12_def)
  have rc: "\<not> (\<exists>t\<in>set (tasks store0). assignedTo t = 4 \<or> createdBy t = 4)"
    by (simp add: store0_def task10_def task11_def task12_def)
  have dist: "distinct (map user_id (users store0))"
    by (simp add: store0_def admin0_def alice_def bob_def carol_def)
  have n: "decimal (countUserTasks 3 store0) = ''1''" by code_simp
  have fb: "User_findById 3 store0 = Some bob" by code_simp
  from deleteUser_blocked_while_referenced[OF b] rb n
  have 1: "route_deleteUser ref_env admin0 id_bob store0 =
       (Inl (Fail 400 (''Cannot delete user. They have 1 task(s) associated with them. ''
                      @ ''Please reassign or delete those tasks first.'')), store0)"
    by simp
  from deleteUser_blocked_while_referenced[OF c] rc dist fb
  have 2: "fst (route_deleteUser ref_env admin0 id_carol store0) = Inr ()
     \<and> User_findById 4 (snd (route_deleteUser ref_env admin0 id_carol store0)) = None
     \<and> User_findById 3 (snd (route_deleteUser ref_env admin0 id_carol store0)) = Some bob"
    by auto
  from 1 2 rb rc dist show ?thesis by simp
qed

section \<open>Administrators and their own account\<close>

lemma getAllUsers_status:
  "getAllUsers E actor q s = Inl f \<Longrightarrow> failure_status f = 500"
  by (auto simp: getAllUsers_def Let_def split: option.splits if_splits)

lemma getUserById_status:
  "getUserById E actor ident s = Inl f \<Longrightarrow> failure_status f \<in> {400, 404, 500}"
  by (auto simp: getUserById_def split: option.splits if_splits)

lemma createUser_status:
  "fst (createUser E actor nb s) = Inl f \<Longrightarrow> failure_status f \<in> {400, 500}"
  by (auto simp: createUser_def Let_def split: if_splits prod.splits sum.splits thrown.splits)

lemma updateUser_status:
  "fst (updateUser E actor ident b s) = Inl f \<Longrightarrow> failure_status f \<in> {400, 404, 500}"
  by (auto simp: updateUser_def split: option.splits if_splits prod.splits sum.splits thrown.splits)

lemma deleteUser_status:
  "fst (deleteUser E actor ident s) = Inl f \<Longrightarrow> failure_status f \<in> {400, 404, 500}"
  by (auto simp: deleteUser_def Let_def split: option.splits if_splits)

lemma updateUser_self_only:
  "fst (updateUser E actor ident b s) = Inl (Fail 400 ''You cannot deactivate your own account'')
   \<Longrightarrow> castObjectId E ident = Some (user_id actor) \<and> ub_isActive b = Some (BBool False)"
  by (auto simp: updateUser_def User_findById_def dest: find_Some_P
      split: option.splits if_splits prod.splits sum.splits thrown.splits)

lemma deleteUser_self_only:
  "fst (deleteUser E actor ident s) = Inl (Fail 400 ''You cannot delete your own account'')
   \<Longrightarrow> castObjectId E ident = Some (user_id actor)"
  by (auto simp: deleteUser_def Let_def User_findById_def dest: find_Some_P
      split: option.splits if_splits)


text \<open>What holds of the guards: the boolean \<open>false\<close> on the administrator's own record
  is refused, and so is the deletion of the own record; \<open>adminAuth\<close> lets an
  administrator through, no controller behind it answers 401 or 403, and the two refusals
  are answered for the own record only.\<close>

lemma admin_self_protection_and_permission:
  assumes "role actor = ''admin''"
  shows "(ObjectId_isValid E ident \<and> castObjectId E ident = Some (user_id actor)
          \<and> User_findById (user_id actor) s \<noteq> None \<and> ub_isActive b = Some (BBool False)
          \<longrightarrow> route_updateUser E actor ident b s
                = (Inl (Fail 400 ''You cannot deactivate your own account''), s))
       \<and> (ObjectId_isValid E ident \<and> castObjectId E ident = Some (user_id actor)
          \<and> User_findById (user_id actor) s \<noteq> None
          \<longrightarrow> route_deleteUser E actor ident s
                = (Inl (Fail 400 ''You cannot delete your own account''), s))
       \<and> adminAuth (Some actor) = None
       \<and> (route_getAllUsers E actor q s = Inl f
           \<or> route_getUserById E actor ident s = Inl f
           \<or> fst (route_createUser E actor nb s) = Inl f
           \<or> fst (route_updateUser E actor ident b s) = Inl f
           \<or> fst (route_deleteUser E actor ident s) = Inl f
          \<longrightarrow> failure_status f \<in> {400, 404, 500})
       \<and> (fst (route_updateUser E actor ident b s)
             = Inl (Fail 400 ''You cannot deactivate your own account'')
          \<longrightarrow> castObjectId E ident = Some (user_id actor) \<and> ub_isActive b = Some (BBool False))
       \<and> (fst (route_deleteUser E actor ident s)
             = Inl (Fail 400 ''You cannot delete your own account'')
          \<longrightarrow> castObjectId E ident = Some (user_id actor))"
proof -
  note aa = adminAuth_admin[OF assms]
  have routes:
    "route_getAllUsers E actor q s = getAllUsers E actor q s"
    "route_getUserById E actor ident s = getUserById E actor ident s"
    "route_createUser E actor nb s = createUser E actor nb s"
    "route_updateUser E actor ident b s = updateUser E actor ident b s"
    "route_deleteUser E actor ident s = deleteUser E actor ident s"
    by (simp_all add: route_getAllUsers_def route_getUserById_def route_createUser_def
          route_updateUser_def route_deleteUser_def aa)
  have 1: "ObjectId_isValid E ident \<and> castObjectId E ident = Some (user_id actor)
          \<and> User_findById (user_id actor) s \<noteq> None \<and> ub_isActive b = Some (BBool False)
          \<longrightarrow> updateUser E actor ident b s
                = (Inl (Fail 400 ''You cannot deactivate your own account''), s)"
    by (auto simp: updateUser_def dest: User_findById_id)
  have 2: "ObjectId_isValid E ident \<and> castObjectId E ident = Some (user_id actor)
          \<and> User_findById (user_id actor) s \<noteq> None
          \<longrightarrow> deleteUser E actor ident s
                = (Inl (Fail 400 ''You cannot delete your own account''), s)"
    by (auto simp: deleteUser_def dest: User_findById_id)
  have 3: "getAllUsers E actor q s = Inl f
           \<or> getUserById E actor ident s = Inl f
           \<or> fst (createUser E actor nb s) = Inl f
           \<or> fst (updateUser E actor ident b s) = Inl f
           \<or> fst (deleteUser E actor ident s) = Inl f
          \<longrightarrow> failure_status f \<in> {400, 404, 500}"
    using getAllUsers_status[of E actor q s f] getUserById_status[of E actor ident s f]
      createUser_status[of E actor nb s f] updateUser_status[of E actor ident b s f]
      deleteUser_status[of E actor ident s f]
    by auto
  from 1 2 3 aa updateUser_self_only[of E actor ident b s] deleteUser_self_only[of E actor ident s]
  show ?thesis unfolding routes by blast
qed

lemma own_deactivation_refused_for_boolean_false:
  "route_updateUser ref_env admin0 id_admin
       \<lparr>ub_username = None, ub_email = None, ub_firstName = None, ub_lastName = None,
        ub_role = None, ub_isActive = Some (BBool False)\<rparr> store0
     = (Inl (Fail 400 ''You cannot deactivate your own account''), store0)"
  by code_simp

text \<open>
  C8. The property: an administrator's \<open>updateUser\<close> on the own record with
  \<open>isActive = false\<close> fails and leaves the record unchanged, \<open>deleteUser\<close> on the own
  record fails, and every other operation of user management is permitted. The guard of
  \<open>updateUser\<close> is \<open>isActive === false\<close> on the body as parsed, and the update then
  casts the value to a Boolean: with the string \<open>"false"\<close> the guard does not fire, and
  the administrator's own record is stored with \<open>isActive\<close> false.
\<close>

theorem admin_deactivates_own_account:
  "castObjectId ref_env id_admin = Some (user_id admin0)
   \<and> (case route_updateUser ref_env admin0 id_admin
             \<lparr>ub_username = None, ub_email = None, ub_firstName = None, ub_lastName = None,
              ub_role = None, ub_isActive = Some (BString ''false'')\<rparr> store0 of
          (Inr (Some u), s') \<Rightarrow>
            user_id u = user_id admin0 \<and> isActive u = Some False
            \<and> map_option isActive (User_findById (user_id admin0) s') = Some (Some False)
        | _ \<Rightarrow> False)"
  by code_simp

section \<open>Task statistics of a user\<close>

lemma stats_step_total:
  "k \<noteq> ''total'' \<Longrightarrow> st ''total'' = Some n \<Longrightarrow> stats_step st (k, c) ''total'' = Some (n + c)"
  by (simp add: stats_step_def Let_def)

lemma stats_step_key:
  "k \<noteq> ''total'' \<Longrightarrow> stats_step st g k = (if k = fst g then Some (snd g) else st k)"
  by (simp add: stats_step_def Let_def)

lemma foldl_stats_total:
  "\<forall>g\<in>set gs. fst g \<noteq> ''total'' \<Longrightarrow> st ''total'' = Some n \<Longrightarrow>
     foldl stats_step st gs ''total'' = Some (n + sum_list (map snd gs))"
proof (induction gs arbitrary: st n)
  case Nil
  then show ?case by simp
next
  case (Cons g gs)
  obtain k c where g: "g = (k, c)" by (cases g)
  with Cons.prems have "stats_step st g ''total'' = Some (n + c)"
    by (simp add: stats_step_total)
  with Cons.IH[of "stats_step st g" "n + c"] Cons.prems g show ?case
    by (simp add: add.assoc)
qed

lemma foldl_stats_key:
  "k \<noteq> ''total'' \<Longrightarrow> distinct (map fst gs) \<Longrightarrow>
     foldl stats_step st gs k = (case map_of gs k of Some c \<Rightarrow> Some c | None \<Rightarrow> st k)"
proof (induction gs arbitrary: st)
  case Nil
  then show ?case by simp
next
  case (Cons g gs)
  then have IH: "foldl stats_step (stats_step st g) gs k
      = (case map_of gs k of Some c \<Rightarrow> Some c | None \<Rightarrow> stats_step st g k)"
    by simp
  show ?case
  proof (cases "k = fst g")
    case True
    with Cons.prems have "map_of gs k = None"
      by (simp add: map_of_eq_None_iff)
    with IH True Cons.prems(1) show ?thesis
      by (cases g) (simp add: stats_step_key)
  next
    case False
    with IH Cons.prems(1) show ?thesis
      by (cases g) (auto simp: stats_step_key split: option.splits)
  qed
qed

lemma count_list_map_filter: "count_list (map f xs) k = length (filter (\<lambda>t. f t = k) xs)"
  by (induction xs) auto

lemma sum_group_counts:
  "sum_list (map (\<lambda>k. int (length (filter (\<lambda>t. f t = k) xs))) (remdups (map f xs)))
     = int (length xs)"
proof -
  have "sum_list (map (\<lambda>k. int (length (filter (\<lambda>t. f t = k) xs))) (remdups (map f xs)))
        = (\<Sum>k\<in>set (map f xs). int (count_list (map f xs) k))"
    by (simp add: sum_list_distinct_conv_sum_set count_list_map_filter)
  also have "\<dots> = int (\<Sum>k\<in>set (map f xs). count_list (map f xs) k)"
    by simp
  also have "\<dots> = int (length (map f xs))"
    by (simp only: sum_count_set[OF subset_refl finite_set])
  finally show ?thesis by simp
qed

lemma aggregate_total:
  assumes "\<forall>t\<in>set (tasks s). status t \<noteq> ''total''"
  shows "foldl stats_step stats_init (Task_aggregate_byStatus a s) ''total''
         = Some (int (length (filter (\<lambda>t. assignedTo t = a) (tasks s))))"
proof -
  have k: "\<forall>g\<in>set (Task_aggregate_byStatus a s). fst g \<noteq> ''total''"
    using assms by (auto simp: Task_aggregate_byStatus_def Let_def)
  have i: "stats_init ''total'' = Some 0" by (simp add: stats_init_def)
  have "map snd (Task_aggregate_byStatus a s)
        = map (\<lambda>k. int (length (filter (\<lambda>t. status t = k) (filter (\<lambda>t. assignedTo t = a) (tasks s)))))
            (remdups (map status (filter (\<lambda>t. assignedTo t = a) (tasks s))))"
    by (simp add: Task_aggregate_byStatus_def Let_def comp_def)
  then have "sum_list (map snd (Task_aggregate_byStatus a s))
        = int (length (filter (\<lambda>t. assignedTo t = a) (tasks s)))"
    by (simp only: sum_group_counts)
  with foldl_stats_total[of "Task_aggregate_byStatus a s" stats_init 0] k i show ?thesis by simp
qed

lemma aggregate_key:
  assumes "k \<in> set validStatuses"
  shows "foldl stats_step stats_init (Task_aggregate_byStatus a s) k
         = Some (int (length (filter (\<lambda>t. assignedTo t = a \<and> status t = k) (tasks s))))"
proof -
  let ?m = "filter (\<lambda>t. assignedTo t = a) (tasks s)"
  have nt: "k \<noteq> ''total''" using assms by (auto simp: validStatuses_def)
  have d: "distinct (map fst (Task_aggregate_byStatus a s))"
    by (simp add: Task_aggregate_byStatus_def Let_def comp_def)
  have i: "stats_init k = Some 0" using assms by (auto simp: validStatuses_def stats_init_def)
  have ff: "filter (\<lambda>t. status t = k) ?m = filter (\<lambda>t. assignedTo t = a \<and> status t = k) (tasks s)"
    by (simp add: conj_commute)
  have mo: "map_of (Task_aggregate_byStatus a s) k
        = (if k \<in> set (map status ?m) then Some (int (length (filter (\<lambda>t. status t = k) ?m)))
           else None)"
    by (simp add: Task_aggregate_byStatus_def Let_def map_of_map_restrict restrict_map_def)
  show ?thesis
  proof (cases "k \<in> set (map status ?m)")
    case True
    with foldl_stats_key[OF nt d, of stats_init] mo ff show ?thesis by simp
  next
    case False
    then have "filter (\<lambda>t. status t = k) ?m = []"
      by (auto simp: filter_empty_conv)
    with False foldl_stats_key[OF nt d, of stats_init] mo ff i show ?thesis by simp
  qed
qed


text \<open>Where the call \<open>mongoose.Types.ObjectId(id)\<close> returns the ObjectId of the id (and no
  task has the status \<open>total\<close>, which the enumeration of the schema excludes), the total
  counts the tasks assigned to the user and each status entry the tasks assigned to the
  user in that status; where the call throws, the request of an existing user is answered
  with 500.\<close>

lemma taskStats_when_call_returns:
  assumes "role actor = ''admin''" and "ObjectId_isValid E ident"
      and "castObjectId E ident = Some i" and "ObjectId_call E ident = Some i"
      and "User_findById i s = Some u"
      and "\<forall>t\<in>set (tasks s). status t \<noteq> ''total''"
  shows "\<exists>r. route_getUserById E actor ident s = Inr r
       \<and> taskStats r ''total'' = Some (int (length (filter (\<lambda>t. assignedTo t = i) (tasks s))))
       \<and> (\<forall>k\<in>set validStatuses.
            taskStats r k
              = Some (int (length (filter (\<lambda>t. assignedTo t = i \<and> status t = k) (tasks s)))))
       \<and> ((\<forall>t\<in>set (tasks s). assignedTo t \<noteq> i) \<and> (\<exists>t\<in>set (tasks s). createdBy t = i)
            \<and> user_id actor \<noteq> i
          \<longrightarrow> taskStats r ''total'' = Some 0
              \<and> (\<exists>m. route_deleteUser E actor ident s = (Inl (Fail 400 m), s)))"
proof -
  define r where "r = \<lparr>the_user = withoutPassword u,
      taskStats = foldl stats_step stats_init (Task_aggregate_byStatus i s)\<rparr>"
  have g: "route_getUserById E actor ident s = Inr r"
    using assms(1-5)
    by (simp add: route_getUserById_def adminAuth_admin getUserById_def r_def)
  have t: "taskStats r ''total'' = Some (int (length (filter (\<lambda>t. assignedTo t = i) (tasks s))))"
    using aggregate_total[OF assms(6)] by (simp add: r_def)
  have k: "\<forall>k\<in>set validStatuses.
            taskStats r k
              = Some (int (length (filter (\<lambda>t. assignedTo t = i \<and> status t = k) (tasks s))))"
    using aggregate_key by (simp add: r_def)
  have uid: "user_id u = i" using assms(5) by (rule User_findById_id)
  have d: "(\<forall>t\<in>set (tasks s). assignedTo t \<noteq> i) \<and> (\<exists>t\<in>set (tasks s). createdBy t = i)
            \<and> user_id actor \<noteq> i
          \<longrightarrow> taskStats r ''total'' = Some 0
              \<and> (\<exists>m. route_deleteUser E actor ident s = (Inl (Fail 400 m), s))"
  proof (intro impI conjI)
    assume a: "(\<forall>t\<in>set (tasks s). assignedTo t \<noteq> i) \<and> (\<exists>t\<in>set (tasks s). createdBy t = i)
            \<and> user_id actor \<noteq> i"
    then have "filter (\<lambda>t. assignedTo t = i) (tasks s) = []"
      by (auto simp: filter_empty_conv)
    with t show "taskStats r ''total'' = Some 0" by simp
    from a have "0 < countUserTasks i s" by (auto simp: countUserTasks_pos)
    with a assms(1-5) uid
    show "\<exists>m. route_deleteUser E actor ident s = (Inl (Fail 400 m), s)"
      by (simp add: route_deleteUser_def adminAuth_admin deleteUser_def Let_def)
  qed
  from g t k d show ?thesis by blast
qed

lemma taskStats_example_legacy:
  "(\<exists>r. route_getUserById legacy_env admin0 id_bob store0 = Inr r
        \<and> taskStats r ''total'' = Some 0 \<and> taskStats r ''in-progress'' = Some 0)
   \<and> (\<exists>t\<in>set (tasks store0). createdBy t = 3)
   \<and> (\<exists>m. route_deleteUser legacy_env admin0 id_bob store0 = (Inl (Fail 400 m), store0))
   \<and> (\<exists>r. route_getUserById legacy_env admin0 id_alice store0 = Inr r
        \<and> taskStats r ''total'' = Some 3 \<and> taskStats r ''completed'' = Some 1)"
proof -
  have b: "role admin0 = ''admin''" "ObjectId_isValid legacy_env id_bob"
    "castObjectId legacy_env id_bob = Some 3" "ObjectId_call legacy_env id_bob = Some 3"
    "User_findById 3 store0 = Some bob"
    by code_simp+
  have a: "role admin0 = ''admin''" "ObjectId_isValid legacy_env id_alice"
    "castObjectId legacy_env id_alice = Some 2" "ObjectId_call legacy_env id_alice = Some 2"
    "User_findById 2 store0 = Some alice"
    by code_simp+
  have st: "\<forall>t\<in>set (tasks store0). status t \<noteq> ''total''"
    by (simp add: store0_def task10_def task11_def task12_def)
  have hb: "(\<forall>t\<in>set (tasks store0). assignedTo t \<noteq> 3) \<and> (\<exists>t\<in>set (tasks store0). createdBy t = 3)
            \<and> user_id admin0 \<noteq> 3"
    by (simp add: store0_def task10_def task11_def task12_def admin0_def)
  have v: "''in-progress'' \<in> set validStatuses" "''completed'' \<in> set validStatuses"
    by (simp_all add: validStatuses_def)
  have cb: "length (filter (\<lambda>t. assignedTo t = 3 \<and> status t = ''in-progress'') (tasks store0)) = 0"
    by (simp add: store0_def task10_def task11_def task12_def)
  have ca: "length (filter (\<lambda>t. assignedTo t = 2) (tasks store0)) = 3"
    "length (filter (\<lambda>t. assignedTo t = 2 \<and> status t = ''completed'') (tasks store0)) = 1"
    by (simp_all add: store0_def task10_def task11_def task12_def)
  from taskStats_when_call_returns[OF b st] hb v cb
  have 1: "(\<exists>r. route_getUserById legacy_env admin0 id_bob store0 = Inr r
        \<and> taskStats r ''total'' = Some 0 \<and> taskStats r ''in-progress'' = Some 0)
     \<and> (\<exists>m. route_deleteUser legacy_env admin0 id_bob store0 = (Inl (Fail 400 m), store0))"
    by fastforce
  from taskStats_when_call_returns[OF a st] v ca
  have 2: "\<exists>r. route_getUserById legacy_env admin0 id_alice store0 = Inr r
        \<and> taskStats r ''total'' = Some 3 \<and> taskStats r ''completed'' = Some 1"
    by fastforce
  from 1 2 hb show ?thesis by blast
qed

lemma getUserById_call_throws:
  assumes "ObjectId_isValid E ident" and "castObjectId E ident = Some i"
      and "User_findById i s = Some u" and "ObjectId_call E ident = None"
  shows "getUserById E actor ident s = Inl (Fail 500 ''Server error fetching user'')"
  using assms by (simp add: getUserById_def)

text \<open>
  C9. The property: for an existing user, \<open>getUserById\<close> by an administrator returns
  \<open>taskStats\<close> that count the tasks assigned to the user only, so that a user may have
  a total of 0 while \<open>deleteUser\<close> is refused for the tasks the user created.
  \<open>getUserById\<close> builds the \<open>$match\<close> stage with \<open>mongoose.Types.ObjectId(id)\<close>,
  called without \<open>new\<close>; where \<open>ObjectId\<close> is a class the call throws, and the request
  for the existing user alice is answered with 500 and no statistics.
\<close>

theorem getUserById_answers_500:
  "role admin0 = ''admin'' \<and> ObjectId_isValid ref_env id_alice
   \<and> Option.bind (castObjectId ref_env id_alice) (\<lambda>i. User_findById i store0) = Some alice
   \<and> (case route_getUserById ref_env admin0 id_alice store0 of
         Inl f \<Rightarrow> f = Fail 500 ''Server error fetching user''
       | Inr r \<Rightarrow> False)"
  by code_simp

end
